theory Spec2Isabelle
  imports Complex_Main "HOL-Library.Multiset" "HOL-Library.AList"
begin

section \<open>Values exchanged with the outside world\<close>

text \<open>
  The generation service answers with text that \<^verbatim>\<open>json.loads\<close> turns into a Python value.
  Nothing in the repository checks the shape of that value, so it is kept as a JSON tree:
  an object is an association list (Python dictionaries keep insertion order).
\<close>

datatype json =
    JNull
  | JBool bool
  | JInt int
  | JFloat real
  | JStr string
  | JArr "json list"
  | JObj "(string \<times> json) list"

text \<open>The exceptions the modelled code can raise or meet; \<open>str_exn\<close> is \<^verbatim>\<open>str(e)\<close>.\<close>

datatype exn =
    KeyError string
  | ValueError string
  | TypeError string
  | JSONDecodeError string
  | IndexError string
  | FileNotFoundError string
  | NotADirectoryError string
  | IsADirectoryError string
  | Exception string

fun str_exn :: "exn \<Rightarrow> string" where
  "str_exn (KeyError k) = CHR 0x27 # k @ [CHR 0x27]"
| "str_exn (ValueError m) = m"
| "str_exn (TypeError m) = m"
| "str_exn (JSONDecodeError m) = m"
| "str_exn (IndexError m) = m"
| "str_exn (FileNotFoundError m) = m"
| "str_exn (NotADirectoryError m) = m"
| "str_exn (IsADirectoryError m) = m"
| "str_exn (Exception m) = m"

section \<open>Strings as Python handles them\<close>

text \<open>
  A string is the list of its code points, each below 256 (a \<open>char\<close> is the code point).
  \<open>contains sub s\<close> is Python's \<^verbatim>\<open>sub in s\<close> on strings. \<open>lower\<close> and \<open>upper\<close> are
  \<^verbatim>\<open>str.lower\<close> and \<^verbatim>\<open>str.upper\<close>: the letters A-Z and the letters at 192-222 (but the
  sign at 215) are 32 below their lower-case forms, and the letter at 223 has the upper
  case \<^verbatim>\<open>SS\<close>. The upper-case forms of the code points 181 and 255 lie above 255; they
  are left as they are, and \<open>upper\<close> is applied to keys of \<open>difficulty_instructions\<close>
  only, which are ASCII. \<open>str_nat\<close> and \<open>str_int\<close> print an integer in decimal, as an
  f-string does.
\<close>

fun contains :: "string \<Rightarrow> string \<Rightarrow> bool" where
  "contains sub [] = (sub = [])"
| "contains sub (c # cs) = (take (length sub) (c # cs) = sub \<or> contains sub cs)"

definition lower_char :: "char \<Rightarrow> char" where
  "lower_char c =
     (if (65 \<le> (of_char c :: nat) \<and> (of_char c :: nat) \<le> 90)
         \<or> (192 \<le> (of_char c :: nat) \<and> (of_char c :: nat) \<le> 222
            \<and> (of_char c :: nat) \<noteq> 215)
      then char_of ((of_char c :: nat) + 32) else c)"

definition upper_char :: "char \<Rightarrow> string" where
  "upper_char c =
     (if (97 \<le> (of_char c :: nat) \<and> (of_char c :: nat) \<le> 122)
         \<or> (224 \<le> (of_char c :: nat) \<and> (of_char c :: nat) \<le> 254
            \<and> (of_char c :: nat) \<noteq> 247)
      then [char_of ((of_char c :: nat) - 32)]
      else if (of_char c :: nat) = 223 then ''SS''
      else [c])"

definition lower :: "string \<Rightarrow> string" where
  "lower s = map lower_char s"

definition upper :: "string \<Rightarrow> string" where
  "upper s = concat (map upper_char s)"

fun str_nat :: "nat \<Rightarrow> string" where
  "str_nat n =
     (if n < 10 then [''0123456789'' ! n]
      else str_nat (n div 10) @ [''0123456789'' ! (n mod 10)])"

declare str_nat.simps [simp del]

definition str_int :: "int \<Rightarrow> string" where
  "str_int i = (if i < 0 then CHR ''-'' # str_nat (nat (- i)) else str_nat (nat i))"

fun join :: "string \<Rightarrow> string list \<Rightarrow> string" where
  "join sep [] = []"
| "join sep [x] = x"
| "join sep (x # y # ys) = x @ sep @ join sep (y # ys)"

text \<open>
  \<^verbatim>\<open>s.split(sep)\<close> for a non-empty separator: the text is scanned from the left and cut
  at each occurrence of \<open>sep\<close>, occurrences not overlapping. \<open>k\<close> counts the characters
  of a matched separator still to be skipped, \<open>cur\<close> is the current piece, reversed.
\<close>

fun split_go :: "string \<Rightarrow> nat \<Rightarrow> string \<Rightarrow> string \<Rightarrow> string list" where
  "split_go sep k cur [] = [rev cur]"
| "split_go sep k cur (c # cs) =
     (if 0 < k then split_go sep (k - 1) cur cs
      else if take (length sep) (c # cs) = sep
        then rev cur # split_go sep (length sep - 1) [] cs
      else split_go sep 0 (c # cur) cs)"

definition split :: "string \<Rightarrow> string \<Rightarrow> string list" where
  "split sep s = split_go sep 0 [] s"

text \<open>
  \<^verbatim>\<open>str.strip()\<close>: the characters for which \<^verbatim>\<open>str.isspace\<close> holds are removed at both
  ends. Below 256 these are the code points 9-13, 28-32, 133 and 160.
\<close>

definition is_space :: "char \<Rightarrow> bool" where
  "is_space c = ((of_char c :: nat) \<in> {9, 10, 11, 12, 13, 28, 29, 30, 31, 32, 133, 160})"

definition strip :: "string \<Rightarrow> string" where
  "strip s = rev (dropWhile is_space (rev (dropWhile is_space s)))"

text \<open>Python indexing of a list by an integer: negative indices count from the end.\<close>

definition py_index :: "'a list \<Rightarrow> int \<Rightarrow> exn + 'a" where
  "py_index xs i =
     (if 0 \<le> i \<and> i < int (length xs) then Inr (xs ! nat i)
      else if i < 0 \<and> - int (length xs) \<le> i then Inr (xs ! nat (int (length xs) + i))
      else Inl (IndexError ''list index out of range''))"

section \<open>The random module\<close>

text \<open>
  The source of randomness is a stream \<open>rng\<close> of natural numbers; the \<open>d\<close>-th draw below
  a bound \<open>n\<close> is \<open>rng d mod n\<close>. \<^verbatim>\<open>random.sample\<close> follows CPython's pool algorithm:
  draw a position among the live entries, take the element there and move the last live
  entry into its place. \<^verbatim>\<open>random.shuffle\<close> is CPython's loop of swaps from the last
  position down to position 1.
\<close>

fun sample_loop :: "(nat \<Rightarrow> nat) \<Rightarrow> nat \<Rightarrow> 'a list \<Rightarrow> nat \<Rightarrow> nat \<Rightarrow> 'a list" where
  "sample_loop rng d pool m 0 = []"
| "sample_loop rng d pool m (Suc k) =
     (let j = rng d mod m
      in pool ! j # sample_loop rng (Suc d) (pool[j := pool ! (m - 1)]) (m - 1) k)"

definition random_sample :: "(nat \<Rightarrow> nat) \<Rightarrow> 'a list \<Rightarrow> int \<Rightarrow> exn + 'a list" where
  "random_sample rng population k =
     (if \<not> (0 \<le> k \<and> k \<le> int (length population))
      then Inl (ValueError ''Sample larger than population or is negative'')
      else Inr (sample_loop rng 0 population (length population) (nat k)))"

fun shuffle_loop :: "(nat \<Rightarrow> nat) \<Rightarrow> nat \<Rightarrow> nat list \<Rightarrow> 'a list \<Rightarrow> 'a list" where
  "shuffle_loop rng d [] x = x"
| "shuffle_loop rng d (i # rest) x =
     (let j = rng d mod (i + 1)
      in shuffle_loop rng (Suc d) rest (x[i := x ! j, j := x ! i]))"

definition random_shuffle :: "(nat \<Rightarrow> nat) \<Rightarrow> 'a list \<Rightarrow> 'a list" where
  "random_shuffle rng x = shuffle_loop rng 0 (rev [1..<length x]) x"

section \<open>Quiz sessions: sampling, grading, aggregation\<close>

text \<open>
  A question as the quiz functions read it. The field \<^verbatim>\<open>'question'\<close> of the source is
  \<open>question_text\<close> here, since \<open>question\<close> is the field of a graded answer below.
\<close>

record question =
  question_text :: string
  options :: "string list"
  correct_answer :: int
  explanation :: string
  topic :: string
  difficulty :: string

text \<open>
  \<^verbatim>\<open>select_quiz_questions\<close>, lines 193-214; \<open>n\<close> is the argument \<^verbatim>\<open>count\<close>. \<open>topics\<close> is \<open>None\<close> for Python's
  \<^verbatim>\<open>None\<close>; \<^verbatim>\<open>if topics\<close> is false for \<^verbatim>\<open>None\<close> and for the empty list.
\<close>

definition available_questions :: "question list \<Rightarrow> string list option \<Rightarrow> question list" where
  "available_questions all_questions topics =
     (case topics of
        None \<Rightarrow> all_questions
      | Some ts \<Rightarrow>
          if ts \<noteq> [] then
            (let filtered = filter (\<lambda>q. topic q \<in> set ts) all_questions
             in if filtered \<noteq> [] then filtered else all_questions)
          else all_questions)"

definition select_quiz_questions ::
  "(nat \<Rightarrow> nat) \<Rightarrow> question list \<Rightarrow> int \<Rightarrow> string list option \<Rightarrow> exn + question list" where
  "select_quiz_questions rng all_questions n topics =
     (let available = available_questions all_questions topics
      in random_sample rng available (min n (int (length available))))"

text \<open>
  The sampling universe in the words of the specification: the questions matching the
  filter when the filter is non-empty and some pool question matches it, the whole pool
  otherwise.
\<close>

definition sampling_universe :: "question list \<Rightarrow> string list option \<Rightarrow> question list" where
  "sampling_universe pool topics =
     (case topics of
        None \<Rightarrow> pool
      | Some ts \<Rightarrow>
          if ts \<noteq> [] \<and> (\<exists>q \<in> set pool. topic q \<in> set ts)
          then filter (\<lambda>q. topic q \<in> set ts) pool else pool)"

text \<open>
  \<^verbatim>\<open>check_answer\<close>, lines 217-240. The fields of the returned dictionary carry the
  prefix \<open>v_\<close>. The entries are evaluated in the order of the dictionary display, so the
  only place that can raise is the read of \<^verbatim>\<open>options[correct_answer]\<close>.
\<close>

record verdict =
  v_correct :: bool
  v_correct_answer :: int
  v_correct_option :: string
  v_user_option :: "string option"
  v_explanation :: string

definition check_answer :: "question \<Rightarrow> int \<Rightarrow> exn + verdict" where
  "check_answer q user_answer =
     (let is_correct = (user_answer = correct_answer q)
      in case py_index (options q) (correct_answer q) of
           Inl e \<Rightarrow> Inl e
         | Inr correct_option \<Rightarrow>
             Inr \<lparr> v_correct = is_correct,
                   v_correct_answer = correct_answer q,
                   v_correct_option = correct_option,
                   v_user_option =
                     (if 0 \<le> user_answer \<and> user_answer < int (length (options q))
                      then Some (options q ! nat user_answer) else None),
                   v_explanation = explanation q \<rparr>)"

text \<open>The Question invariant of the data model.\<close>

definition question_invariant :: "question \<Rightarrow> bool" where
  "question_invariant q =
     (length (options q) = 4 \<and> 0 \<le> correct_answer q
      \<and> correct_answer q < int (length (options q)))"

text \<open>
  \<^verbatim>\<open>calculate_topic_performance\<close>, lines 243-270. The dictionary \<^verbatim>\<open>topic_stats\<close> is an
  association list in insertion order: a new topic goes to the end, an update keeps the
  position. The first loop counts; the second adds \<^verbatim>\<open>percentage\<close> and \<^verbatim>\<open>status\<close> to
  every entry.
\<close>

record quiz_result =
  question :: question
  user_answer :: int
  is_correct :: bool

record tally =
  correct :: nat
  total_answers :: nat

record topic_stat = tally +
  percentage :: real
  status :: string

definition count_result :: "quiz_result \<Rightarrow> (string \<times> tally) list \<Rightarrow> (string \<times> tally) list" where
  "count_result result topic_stats =
     (let t = topic (question result);
          d1 = (if t \<notin> fst ` set topic_stats
                then AList.update t \<lparr> correct = 0, total_answers = 0 \<rparr> topic_stats
                else topic_stats);
          d2 = AList.map_entry t (\<lambda>s. s\<lparr> total_answers := total_answers s + 1 \<rparr>) d1
      in if is_correct result
         then AList.map_entry t (\<lambda>s. s\<lparr> correct := correct s + 1 \<rparr>) d2
         else d2)"

text \<open>
  The percentage is a Python float, an IEEE 754 double: \<^verbatim>\<open>correct / total\<close> is the double
  nearest to the quotient of the two integers, and \<^verbatim>\<open>* 100\<close> the double nearest to the
  product, ties going to the even significand in both. A double is kept as a fraction
  whose denominator is a power of two. \<open>round_double p q\<close> is the double nearest to
  \<open>p / q\<close>: with \<open>e\<close> the binary exponent of \<open>p / q\<close>, not below -1022 (where the
  subnormal numbers begin), the quotient is rounded to a multiple of \<open>2 ^ (e - 52)\<close>. No
  result here exceeds 100, since a topic never has more correct answers than answers, so
  the largest double plays no part. The percentage recorded is the exact value of the
  double, and comparing it with a threshold compares the values, as Python does for a
  float and an integer.
\<close>

fun bit_length :: "nat \<Rightarrow> nat" where
  "bit_length n = (if n = 0 then 0 else Suc (bit_length (n div 2)))"

declare bit_length.simps [simp del]

definition floor_log2 :: "nat \<Rightarrow> nat \<Rightarrow> int" where
  "floor_log2 p q =
     (let d = int (bit_length p) - int (bit_length q)
      in if (if 0 \<le> d then q * 2 ^ nat d \<le> p else q \<le> p * 2 ^ nat (- d)) then d else d - 1)"

definition round_half_even :: "nat \<Rightarrow> nat \<Rightarrow> nat" where
  "round_half_even p q =
     (let d = p div q; r = p mod q
      in if 2 * r < q then d
         else if q < 2 * r then d + 1
         else if even d then d else d + 1)"

definition round_double :: "nat \<Rightarrow> nat \<Rightarrow> nat \<times> nat" where
  "round_double p q =
     (if p = 0 then (0, 1)
      else
        (let e = max (floor_log2 p q) (- 1022); s = e - 52
         in if 0 \<le> s then (round_half_even p (q * 2 ^ nat s) * 2 ^ nat s, 1)
            else (round_half_even (p * 2 ^ nat (- s)) q, 2 ^ nat (- s))))"

definition int_true_div :: "nat \<Rightarrow> nat \<Rightarrow> nat \<times> nat" where
  "int_true_div c t = round_double c t"

definition float_mul_int :: "nat \<times> nat \<Rightarrow> nat \<Rightarrow> nat \<times> nat" where
  "float_mul_int x k = round_double (fst x * k) (snd x)"

definition float_value :: "nat \<times> nat \<Rightarrow> real" where
  "float_value x = real (fst x) / real (snd x)"

definition float_percentage :: "nat \<Rightarrow> nat \<Rightarrow> real" where
  "float_percentage c t = float_value (float_mul_int (int_true_div c t) 100)"

definition add_percentage :: "tally \<Rightarrow> topic_stat" where
  "add_percentage stats =
     (let p = (if total_answers stats > 0
               then float_percentage (correct stats) (total_answers stats) else 0)
      in \<lparr> correct = correct stats, total_answers = total_answers stats,
           percentage = p,
           status = (if p \<ge> 80 then ''Strong''
                     else if p \<ge> 60 then ''Needs Review'' else ''Weak'') \<rparr>)"

definition calculate_topic_performance :: "quiz_result list \<Rightarrow> (string \<times> topic_stat) list" where
  "calculate_topic_performance quiz_results =
     map (\<lambda>(t, stats). (t, add_percentage stats)) (fold count_result quiz_results [])"

text \<open>
  The counts the aggregation is meant to compute, read off the list of graded answers:
  how many answers a topic has, and how many of them are correct.
\<close>

definition answers_on :: "string \<Rightarrow> quiz_result list \<Rightarrow> nat" where
  "answers_on t rs = length (filter (\<lambda>r. topic (question r) = t) rs)"

definition correct_on :: "string \<Rightarrow> quiz_result list \<Rightarrow> nat" where
  "correct_on t rs = length (filter (\<lambda>r. topic (question r) = t \<and> is_correct r) rs)"

text \<open>
  \<^verbatim>\<open>get_weak_topics\<close>, lines 273-298; the fields of a list entry carry the prefix
  \<open>wt_\<close>. \<^verbatim>\<open>list.sort\<close> is stable, as \<open>sort_key\<close> is. The default threshold is 60.
\<close>

record weak_topic =
  wt_topic :: string
  wt_score :: string
  wt_percentage :: real
  wt_status :: string

definition weak_entry :: "string \<times> topic_stat \<Rightarrow> weak_topic" where
  "weak_entry e =
     \<lparr> wt_topic = fst e,
       wt_score = str_nat (correct (snd e)) @ ''/'' @ str_nat (total_answers (snd e)),
       wt_percentage = percentage (snd e),
       wt_status = status (snd e) \<rparr>"

definition get_weak_topics :: "(string \<times> topic_stat) list \<Rightarrow> real \<Rightarrow> weak_topic list" where
  "get_weak_topics topic_performance threshold =
     sort_key wt_percentage
       (map weak_entry (filter (\<lambda>e. percentage (snd e) < threshold) topic_performance))"

section \<open>Question bank builder: the default difficulty split\<close>

text \<open>
  \<^verbatim>\<open>generate_questions\<close>, lines 75-80: when no mix is given the total is split into
  three tiers. Python's \<^verbatim>\<open>//\<close> is floor division, as \<open>div\<close> on \<open>int\<close> is.
\<close>

definition default_difficulty_mix :: "int \<Rightarrow> (string \<times> int) list" where
  "default_difficulty_mix num_questions =
     [(''easy'', num_questions div 3),
      (''medium'', num_questions div 3),
      (''hard'', num_questions - (2 * (num_questions div 3)))]"

section \<open>The generation client\<close>

text \<open>
  The text-generation service is outside the program. A \<open>completion\<close> gives, for the
  number of calls made before and the request, either the exception the call raises or
  the response. The world records what the program did to it: how many calls it made
  and the pauses it took, in seconds, in order. Console output is left out.
\<close>

record request =
  model :: string
  messages :: string
  temperature :: real
  max_tokens :: nat

record token_usage =
  prompt_tokens :: nat
  completion_tokens :: nat
  total_tokens :: nat

record response =
  content :: string
  usage :: token_usage

type_synonym completion = "nat \<Rightarrow> request \<Rightarrow> exn + response"

record world =
  calls :: nat
  sleeps :: "nat list"

definition sleep :: "nat \<Rightarrow> world \<Rightarrow> world" where
  "sleep seconds w = w\<lparr> sleeps := sleeps w @ [seconds] \<rparr>"

definition MODEL_CHAIN :: "string list" where
  "MODEL_CHAIN = [''gemini/gemini-2.5-flash-lite'', ''gemini/gemini-2.0-flash'']"

text \<open>The two tests \<^verbatim>\<open>call_llm_with_retry\<close> makes on \<^verbatim>\<open>str(e)\<close>.\<close>

definition is_transient :: "string \<Rightarrow> bool" where
  "is_transient error_str =
     (contains ''503'' error_str \<or> contains ''overloaded'' (lower error_str)
      \<or> contains ''429'' error_str)"

definition is_not_found :: "string \<Rightarrow> bool" where
  "is_not_found error_str =
     (contains ''404'' error_str \<or> contains ''not found'' (lower error_str))"

text \<open>
  \<^verbatim>\<open>call_llm_with_retry\<close> (the same loop in \<^verbatim>\<open>llm.py\<close>, lines 21-61, and in
  \<^verbatim>\<open>quiz.py\<close>, lines 17-54). The inner loop runs over \<^verbatim>\<open>range(max_retries)\<close>; it ends
  by returning the response, by raising, or by going on to the next model (a
  \<^verbatim>\<open>break\<close>, or the range used up).
\<close>

datatype attempt_result = Returned response | Raised exn | Next_model

fun attempts ::
  "completion \<Rightarrow> request \<Rightarrow> nat \<Rightarrow> nat list \<Rightarrow> world \<Rightarrow> attempt_result \<times> world" where
  "attempts completion req max_retries [] w = (Next_model, w)"
| "attempts completion req max_retries (attempt # rest) w =
     (case completion (calls w) req of
        Inr response \<Rightarrow> (Returned response, w\<lparr> calls := calls w + 1 \<rparr>)
      | Inl e \<Rightarrow>
          (if is_transient (str_exn e) then
             (if attempt < max_retries - 1
              then attempts completion req max_retries rest
                     (sleep ((2 ^ attempt) * 2) (w\<lparr> calls := calls w + 1 \<rparr>))
              else (Next_model, w\<lparr> calls := calls w + 1 \<rparr>))
           else if is_not_found (str_exn e) then (Next_model, w\<lparr> calls := calls w + 1 \<rparr>)
           else
             (if attempt = max_retries - 1 then (Raised e, w\<lparr> calls := calls w + 1 \<rparr>)
              else attempts completion req max_retries rest
                     (sleep 2 (w\<lparr> calls := calls w + 1 \<rparr>)))))"

fun models_loop ::
  "completion \<Rightarrow> (string \<Rightarrow> request) \<Rightarrow> nat \<Rightarrow> string list \<Rightarrow> world
     \<Rightarrow> (exn + response) \<times> world" where
  "models_loop completion mk max_retries [] w =
     (Inl (Exception ''All models failed. Please check your API keys or try again later.''), w)"
| "models_loop completion mk max_retries (m # ms) w =
     (case attempts completion (mk m) max_retries [0..<max_retries] w of
        (Returned response, w') \<Rightarrow> (Inr response, w')
      | (Raised e, w') \<Rightarrow> (Inl e, w')
      | (Next_model, w') \<Rightarrow> models_loop completion mk max_retries ms w')"

definition call_llm_with_retry ::
  "completion \<Rightarrow> string \<Rightarrow> real \<Rightarrow> nat \<Rightarrow> nat \<Rightarrow> world \<Rightarrow> (exn + response) \<times> world" where
  "call_llm_with_retry completion msgs temp max_toks max_retries w =
     models_loop completion
       (\<lambda>m. \<lparr> model = m, messages = msgs, temperature = temp, max_tokens = max_toks \<rparr>)
       max_retries MODEL_CHAIN w"

text \<open>
  A failure that is neither transient nor model-unavailable, and the pauses taken after
  transient failures at attempts \<open>0, \<dots>, a - 1\<close>.
\<close>

definition other_error :: "exn \<Rightarrow> bool" where
  "other_error e = (\<not> is_transient (str_exn e) \<and> \<not> is_not_found (str_exn e))"


text \<open>
  Unwrapping a fenced code block, as both callers do it. The guards make the reads at
  index 1 and 0 fall inside the split lists.
\<close>

definition strip_code_fence :: "string \<Rightarrow> string" where
  "strip_code_fence text =
     (if contains ''```json'' text
        then strip (split ''```'' (split ''```json'' text ! 1) ! 0)
      else if contains ''```'' text
        then strip (split ''```'' (split ''```'' text ! 1) ! 0)
      else text)"

section \<open>Notes synthesizer\<close>

definition notes_prompt :: "string \<Rightarrow> string" where
  \<open>notes_prompt transcript =
     ''You are an expert educational content creator. Analyze this lecture transcript and create comprehensive, structured notes.\<newline>''
     @ ''\<newline>''
     @ ''TRANSCRIPT:\<newline>''
     @ transcript
     @ ''\<newline>''
     @ ''\<newline>''
     @ ''Please provide your response in the following JSON format (ensure valid JSON):\<newline>''
     @ ''{\<newline>''
     @ ''    "summary": "A 3-4 sentence overview of the entire lecture",\<newline>''
     @ ''    "key_concepts": ["concept 1", "concept 2", "concept 3", ...],\<newline>''
     @ ''    "topics": [\<newline>''
     @ ''        {\<newline>''
     @ ''            "name": "Topic Name",\<newline>''
     @ ''            "description": "Brief description of this topic",\<newline>''
     @ ''            "keywords": ["keyword1", "keyword2"]\<newline>''
     @ ''        }\<newline>''
     @ ''    ],\<newline>''
     @ ''    "detailed_notes": "Comprehensive notes in markdown format with sections, subsections, and bullet points"\<newline>''
     @ ''}\<newline>''
     @ ''\<newline>''
     @ ''Requirements:\<newline>''
     @ ''1. Summary: Capture the main purpose and key takeaways\<newline>''
     @ ''2. Key Concepts: List 5-10 most important concepts/terms\<newline>''
     @ ''3. Topics: Identify 5-8 major topics covered (these will be used for quiz categorization)\<newline>''
     @ ''4. Detailed Notes: Well-organized markdown with:\<newline>''
     @ ''   - Clear section headers (##)\<newline>''
     @ ''   - Subsections (###)\<newline>''
     @ ''   - Bullet points for key information\<newline>''
     @ ''   - Important formulas, definitions, or code snippets if applicable\<newline>''
     @ ''\<newline>''
     @ ''IMPORTANT: Return ONLY valid JSON, no additional text before or after.''\<close>

text \<open>
  Python's \<^verbatim>\<open>key in value\<close> on what \<^verbatim>\<open>json.loads\<close> can return: key membership for
  an object, element membership for an array, substring for a string, and a TypeError
  for the rest. \<open>all_in\<close> is \<^verbatim>\<open>all(key in notes_data for key in required_keys)\<close>, which
  stops at the first key that is missing.
\<close>

definition not_iterable_arg :: "string \<Rightarrow> exn" where
  "not_iterable_arg ty =
     TypeError (''argument of type '' @ [CHR 0x27] @ ty @ [CHR 0x27] @ '' is not iterable'')"

fun py_in :: "string \<Rightarrow> json \<Rightarrow> exn + bool" where
  "py_in key (JObj kvs) = Inr (key \<in> fst ` set kvs)"
| "py_in key (JArr xs) = Inr (JStr key \<in> set xs)"
| "py_in key (JStr s) = Inr (contains key s)"
| "py_in key JNull = Inl (not_iterable_arg ''NoneType'')"
| "py_in key (JBool b) = Inl (not_iterable_arg ''bool'')"
| "py_in key (JInt i) = Inl (not_iterable_arg ''int'')"
| "py_in key (JFloat x) = Inl (not_iterable_arg ''float'')"

fun all_in :: "string list \<Rightarrow> json \<Rightarrow> exn + bool" where
  "all_in [] v = Inr True"
| "all_in (key # keys) v =
     (case py_in key v of
        Inl e \<Rightarrow> Inl e
      | Inr found \<Rightarrow> if found then all_in keys v else Inr False)"

definition required_keys :: "string list" where
  "required_keys = [''summary'', ''key_concepts'', ''topics'', ''detailed_notes'']"

text \<open>
  The result dictionary of \<^verbatim>\<open>generate_notes\<close>: success with the notes and the token
  usage, or failure with the error text and, in one handler only, \<^verbatim>\<open>raw_response\<close>.
  \<open>notes_except\<close> is the pair of \<^verbatim>\<open>except\<close> clauses (lines 159-170): its second
  argument is the local variable \<^verbatim>\<open>content\<close>, if it has been assigned.
\<close>

datatype notes_result =
    NotesOk json token_usage
  | NotesFailed string "string option"

definition notes_except :: "exn \<Rightarrow> string option \<Rightarrow> notes_result" where
  "notes_except e text =
     (case e of
        JSONDecodeError m \<Rightarrow>
          NotesFailed (''Failed to parse LLM response as JSON: '' @ str_exn e)
            (Some (case text of Some c \<Rightarrow> c | None \<Rightarrow> ''No response''))
      | _ \<Rightarrow> NotesFailed (''Error generating notes: '' @ str_exn e) None)"

text \<open>
  \<^verbatim>\<open>generate_notes\<close>, lines 64-170. \<open>loads\<close> is \<^verbatim>\<open>json.loads\<close>: the message of the
  JSONDecodeError it raises, or the value. The argument \<^verbatim>\<open>video_id\<close> is not used by
  the source and is left out.
\<close>

definition generate_notes ::
  "completion \<Rightarrow> (string \<Rightarrow> string + json) \<Rightarrow> string \<Rightarrow> world \<Rightarrow> notes_result \<times> world" where
  "generate_notes completion loads transcript w =
     (if length transcript < 100
      then (NotesFailed ''Transcript is too short to generate meaningful notes.'' None, w)
      else
        (case call_llm_with_retry completion (notes_prompt transcript) (3 / 10) 4000 3 w of
           (Inl e, w') \<Rightarrow> (notes_except e None, w')
         | (Inr response, w') \<Rightarrow>
             (let text = strip_code_fence (content response)
              in case loads text of
                   Inl m \<Rightarrow> (notes_except (JSONDecodeError m) (Some text), w')
                 | Inr notes_data \<Rightarrow>
                     (case all_in required_keys notes_data of
                        Inl e \<Rightarrow> (notes_except e (Some text), w')
                      | Inr present \<Rightarrow>
                          if \<not> present
                          then (notes_except
                                  (ValueError ''LLM response missing required fields'')
                                  (Some text), w')
                          else (NotesOk notes_data (usage response), w')))))"

section \<open>Question bank builder\<close>

text \<open>
  The notes as \<^verbatim>\<open>generate_questions\<close> reads them (its docstring: the structured notes
  of \<^verbatim>\<open>generate_notes\<close>). Below, \<open>tier\<close> is the variable \<^verbatim>\<open>difficulty\<close> and \<open>n\<close> is
  \<^verbatim>\<open>count\<close>.
\<close>

record topic_entry =
  name :: string
  description :: string

record lecture_notes =
  summary :: string
  key_concepts :: "string list"
  topics :: "topic_entry list"
  detailed_notes :: string

definition difficulty_instructions :: "(string \<times> string) list" where
  "difficulty_instructions =
     [(''easy'', ''Focus on basic definitions, facts, and direct recall from the lecture.''),
      (''medium'', ''Focus on understanding concepts and their relationships.''),
      (''hard'', ''Focus on application, analysis, and critical thinking.'')]"

definition questions_prompt_text ::
  "lecture_notes \<Rightarrow> string \<Rightarrow> string \<Rightarrow> string \<Rightarrow> int \<Rightarrow> string" where
  \<open>questions_prompt_text notes_data topics_text tier instructions n =
     ''You are an expert quiz creator. Generate ''
     @ str_int n
     @ '' multiple-choice questions based on these lecture notes.\<newline>''
     @ ''\<newline>''
     @ ''LECTURE SUMMARY:\<newline>''
     @ summary notes_data
     @ ''\<newline>''
     @ ''\<newline>''
     @ ''KEY CONCEPTS:\<newline>''
     @ join '', '' (key_concepts notes_data)
     @ ''\<newline>''
     @ ''\<newline>''
     @ ''TOPICS COVERED:\<newline>''
     @ topics_text
     @ ''\<newline>''
     @ ''\<newline>''
     @ ''DETAILED CONTENT:\<newline>''
     @ take 2000 (detailed_notes notes_data)
     @ ''  \<newline>''
     @ ''\<newline>''
     @ ''DIFFICULTY LEVEL: ''
     @ upper tier
     @ ''\<newline>''
     @ instructions
     @ ''\<newline>''
     @ ''\<newline>''
     @ ''Generate ''
     @ str_int n
     @ '' questions following this EXACT JSON format:\<newline>''
     @ ''[\<newline>''
     @ ''    {\<newline>''
     @ ''        "question": "What is...?",\<newline>''
     @ ''        "options": ["Option A", "Option B", "Option C", "Option D"],\<newline>''
     @ ''        "correct_answer": 0,\<newline>''
     @ ''        "explanation": "The answer is A because...",\<newline>''
     @ ''        "topic": "Topic name from the notes",\<newline>''
     @ ''        "difficulty": "''
     @ tier
     @ ''"\<newline>''
     @ ''    }\<newline>''
     @ '']\<newline>''
     @ ''\<newline>''
     @ ''Requirements:\<newline>''
     @ ''1. Each question must have exactly 4 options\<newline>''
     @ ''2. correct_answer is the index (0-3) of the correct option\<newline>''
     @ ''3. Explanation should be clear and educational\<newline>''
     @ ''4. Topic must match one from the notes\<newline>''
     @ ''5. Questions should cover different topics\<newline>''
     @ ''6. Return ONLY valid JSON array, no other text\<newline>''
     @ ''\<newline>''
     @ ''IMPORTANT: Return ONLY the JSON array, nothing else.''\<close>

text \<open>
  Building the prompt (lines 113-162) is outside the \<^verbatim>\<open>try\<close>: a difficulty that is
  not a key of \<^verbatim>\<open>difficulty_instructions\<close> raises a KeyError there.
\<close>

definition questions_prompt :: "lecture_notes \<Rightarrow> string \<Rightarrow> int \<Rightarrow> exn + string" where
  "questions_prompt notes_data tier n =
     (let topics_text =
            join ''\<newline>'' (map (\<lambda>t. ''- '' @ name t @ '': '' @ description t) (topics notes_data))
      in case map_of difficulty_instructions tier of
           None \<Rightarrow> Inl (KeyError tier)
         | Some instructions \<Rightarrow>
             Inr (questions_prompt_text notes_data topics_text tier instructions n))"

text \<open>
  \<^verbatim>\<open>_generate_questions_by_difficulty\<close>, lines 110-190. Whatever is raised inside the
  \<^verbatim>\<open>try\<close> (by the client or by \<^verbatim>\<open>json.loads\<close>) is caught and the empty list returned.
  The value returned otherwise is what \<^verbatim>\<open>json.loads\<close> gave, a single object wrapped in
  a list; nothing else is checked.
\<close>

definition generate_questions_by_difficulty ::
  "completion \<Rightarrow> (string \<Rightarrow> string + json) \<Rightarrow> lecture_notes \<Rightarrow> string \<Rightarrow> int \<Rightarrow> world
     \<Rightarrow> (exn + json) \<times> world" where
  "generate_questions_by_difficulty completion loads notes_data tier n w =
     (case questions_prompt notes_data tier n of
        Inl e \<Rightarrow> (Inl e, w)
      | Inr prompt \<Rightarrow>
          (case call_llm_with_retry completion prompt (7 / 10) 3000 3 w of
             (Inl e, w') \<Rightarrow> (Inr (JArr []), w')
           | (Inr response, w') \<Rightarrow>
               (case loads (strip_code_fence (content response)) of
                  Inl m \<Rightarrow> (Inr (JArr []), w')
                | Inr questions \<Rightarrow>
                    (Inr (case questions of JObj kvs \<Rightarrow> JArr [questions] | _ \<Rightarrow> questions),
                     w'))))"

text \<open>
  \<^verbatim>\<open>list.extend\<close> with a value of unknown shape: the elements of a list, the characters
  of a string, the keys of a dictionary, and a TypeError for what cannot be iterated.
\<close>

definition not_iterable_object :: "string \<Rightarrow> exn" where
  "not_iterable_object ty =
     TypeError ([CHR 0x27] @ ty @ [CHR 0x27] @ '' object is not iterable'')"

fun list_extend :: "json list \<Rightarrow> json \<Rightarrow> exn + json list" where
  "list_extend xs (JArr ys) = Inr (xs @ ys)"
| "list_extend xs (JStr s) = Inr (xs @ map (\<lambda>c. JStr [c]) s)"
| "list_extend xs (JObj kvs) = Inr (xs @ map (\<lambda>kv. JStr (fst kv)) kvs)"
| "list_extend xs JNull = Inl (not_iterable_object ''NoneType'')"
| "list_extend xs (JBool b) = Inl (not_iterable_object ''bool'')"
| "list_extend xs (JInt i) = Inl (not_iterable_object ''int'')"
| "list_extend xs (JFloat x) = Inl (not_iterable_object ''float'')"

text \<open>
  \<^verbatim>\<open>generate_questions\<close>, lines 57-107: the loop over the tiers, then the shuffle. An
  exception that reaches the outer handler gives the failure result.
\<close>

fun tiers_loop ::
  "completion \<Rightarrow> (string \<Rightarrow> string + json) \<Rightarrow> lecture_notes \<Rightarrow> (string \<times> int) list \<Rightarrow> json list
     \<Rightarrow> world \<Rightarrow> (exn + json list) \<times> world" where
  "tiers_loop completion loads notes_data [] all_questions w = (Inr all_questions, w)"
| "tiers_loop completion loads notes_data ((tier, n) # rest) all_questions w =
     (if n > 0 then
        (case generate_questions_by_difficulty completion loads notes_data tier n w of
           (Inl e, w') \<Rightarrow> (Inl e, w')
         | (Inr questions, w') \<Rightarrow>
             (case list_extend all_questions questions of
                Inl e \<Rightarrow> (Inl e, w')
              | Inr all_questions' \<Rightarrow>
                  tiers_loop completion loads notes_data rest all_questions' w'))
      else tiers_loop completion loads notes_data rest all_questions w)"

datatype questions_result =
    QuestionsOk "json list" nat
  | QuestionsFailed string

definition generate_questions ::
  "completion \<Rightarrow> (string \<Rightarrow> string + json) \<Rightarrow> (nat \<Rightarrow> nat) \<Rightarrow> lecture_notes \<Rightarrow> int
     \<Rightarrow> (string \<times> int) list option \<Rightarrow> world \<Rightarrow> questions_result \<times> world" where
  "generate_questions completion loads rng notes_data num_questions difficulty_mix w =
     (let mix = (case difficulty_mix of
                   None \<Rightarrow> default_difficulty_mix num_questions
                 | Some given \<Rightarrow> given)
      in case tiers_loop completion loads notes_data mix [] w of
           (Inl e, w') \<Rightarrow> (QuestionsFailed (''Error generating questions: '' @ str_exn e), w')
         | (Inr all_questions, w') \<Rightarrow>
             (QuestionsOk (random_shuffle rng all_questions) (length all_questions), w'))"

text \<open>
  What the loop of lines 85-92 has to work with: \<open>tier_batches\<close> are the values the calls
  of \<^verbatim>\<open>_generate_questions_by_difficulty\<close> return, one for each tier with a positive
  count, in the order of the mix; \<open>batch_items\<close> are the elements \<^verbatim>\<open>extend\<close> takes from such
  a value.
\<close>

fun tier_batches ::
  "completion \<Rightarrow> (string \<Rightarrow> string + json) \<Rightarrow> lecture_notes \<Rightarrow> (string \<times> int) list
     \<Rightarrow> world \<Rightarrow> (exn + json list) \<times> world" where
  "tier_batches completion loads notes_data [] w = (Inr [], w)"
| "tier_batches completion loads notes_data ((tier, n) # rest) w =
     (if n > 0 then
        (case generate_questions_by_difficulty completion loads notes_data tier n w of
           (Inl e, w') \<Rightarrow> (Inl e, w')
         | (Inr questions, w') \<Rightarrow>
             (case tier_batches completion loads notes_data rest w' of
                (Inl e, w'') \<Rightarrow> (Inl e, w'')
              | (Inr batches, w'') \<Rightarrow> (Inr (questions # batches), w'')))
      else tier_batches completion loads notes_data rest w)"

definition batch_items :: "json \<Rightarrow> json list" where
  "batch_items v = (case list_extend [] v of Inr items \<Rightarrow> items | Inl e \<Rightarrow> [])"

text \<open>
  The Question invariant of the data model, read on a generated question: an object
  whose \<^verbatim>\<open>options\<close> is a list of exactly 4 and whose \<^verbatim>\<open>correct_answer\<close> is an integer
  index into it.
\<close>

definition generated_question_invariant :: "json \<Rightarrow> bool" where
  "generated_question_invariant q =
     (case q of
        JObj kvs \<Rightarrow>
          (case (map_of kvs ''options'', map_of kvs ''correct_answer'') of
             (Some (JArr opts), Some (JInt c)) \<Rightarrow>
               length opts = 4 \<and> 0 \<le> c \<and> c < int (length opts)
           | _ \<Rightarrow> False)
      | _ \<Rightarrow> False)"

section \<open>Session cache\<close>









section \<open>Sampling a quiz\<close>

lemma sample_step:
  assumes "j < m" "m \<le> length pool"
  shows "add_mset (pool ! j) (mset (take (m - 1) (pool[j := pool ! (m - 1)]))) = mset (take m pool)"
proof -
  from assms obtain m' where m: "m = Suc m'" by (cases m) auto
  have t: "take m pool = take m' pool @ [pool ! m']"
    using assms m by (simp add: take_Suc_conv_app_nth)
  show ?thesis
  proof (cases "j = m'")
    case True
    then show ?thesis using t m by simp
  next
    case False
    then have jl: "j < m'" using assms m by simp
    have jlen: "j < length (take m' pool)" using jl assms m by simp
    have nj: "take m' pool ! j = pool ! j" using jl by simp
    have mem: "pool ! j \<in># mset (take m' pool)"
      using nth_mem_mset [OF jlen] nj by simp
    have "take m' (pool[j := pool ! m']) = (take m' pool)[j := pool ! m']"
      by (simp add: take_update_swap)
    then have "mset (take m' (pool[j := pool ! m']))
        = add_mset (pool ! m') (mset (take m' pool) - {#pool ! j#})"
      using mset_update [OF jlen, of "pool ! m'"] nj by simp
    then show ?thesis using t m mem by simp
  qed
qed

lemma sample_loop_props:
  "k \<le> m \<Longrightarrow> m \<le> length pool \<Longrightarrow>
     length (sample_loop rng d pool m k) = k
     \<and> mset (sample_loop rng d pool m k) \<subseteq># mset (take m pool)"
proof (induction k arbitrary: pool m d)
  case 0
  then show ?case by simp
next
  case (Suc k)
  let ?j = "rng d mod m"
  let ?pool = "pool[?j := pool ! (m - 1)]"
  have j: "?j < m" using Suc.prems by simp
  have ih: "length (sample_loop rng (Suc d) ?pool (m - 1) k) = k
     \<and> mset (sample_loop rng (Suc d) ?pool (m - 1) k) \<subseteq># mset (take (m - 1) ?pool)"
    using Suc.prems by (intro Suc.IH) auto
  have "add_mset (pool ! ?j) (mset (sample_loop rng (Suc d) ?pool (m - 1) k))
        \<subseteq># add_mset (pool ! ?j) (mset (take (m - 1) ?pool))"
    using ih by simp
  also have "\<dots> = mset (take m pool)"
    using sample_step [OF j] Suc.prems by simp
  finally have "mset (sample_loop rng d pool m (Suc k)) \<subseteq># mset (take m pool)"
    by (simp add: Let_def)
  moreover have "length (sample_loop rng d pool m (Suc k)) = Suc k"
    using ih by (simp add: Let_def)
  ultimately show ?case by simp
qed

lemma random_sample_props:
  assumes "0 \<le> k" "k \<le> int (length xs)"
  shows "\<exists>ys. random_sample rng xs k = Inr ys \<and> int (length ys) = k \<and> mset ys \<subseteq># mset xs"
  using assms sample_loop_props [of "nat k" "length xs" xs rng 0]
  by (simp add: random_sample_def)

lemma distinct_submultiset: "mset ys \<subseteq># mset xs \<Longrightarrow> distinct xs \<Longrightarrow> distinct ys"
proof -
  assume a: "mset ys \<subseteq># mset xs" and d: "distinct xs"
  have "count (mset ys) a \<le> 1" for a
  proof -
    have "count (mset ys) a \<le> count (mset xs) a" using a by (rule mset_subset_eq_count)
    also have "\<dots> \<le> 1" using d by (simp add: distinct_count_atmost_1)
    finally show ?thesis .
  qed
  then show ?thesis unfolding distinct_count_atmost_1 by (simp add: le_Suc_eq) 
qed

lemma available_is_universe: "available_questions pool filter_topics = sampling_universe pool filter_topics"
  by (auto simp: available_questions_def sampling_universe_def Let_def filter_empty_conv
      split: option.splits)

text \<open>
  C5. For every pool, every count \<open>n \<ge> 0\<close> and every optional topic filter,
  \<open>select_quiz_questions\<close> returns without raising; the result has exactly
  \<open>min n |universe|\<close> questions, drawn from the universe without replacement (as a
  multiset it is contained in the universe, so it is distinct when the pool is), where
  the universe is the topic-matching part of the pool when the filter is non-empty and
  matches something, and the whole pool otherwise.
\<close>

theorem select_quiz_questions_sample:
  assumes "0 \<le> n"
  shows "\<exists>selected. select_quiz_questions rng pool n filter_topics = Inr selected
           \<and> int (length selected) = min n (int (length (sampling_universe pool filter_topics)))
           \<and> mset selected \<subseteq># mset (sampling_universe pool filter_topics)
           \<and> set selected \<subseteq> set pool
           \<and> (distinct pool \<longrightarrow> distinct selected)"
proof -
  let ?u = "sampling_universe pool filter_topics"
  have "0 \<le> min n (int (length ?u))" and "min n (int (length ?u)) \<le> int (length ?u)"
    using assms by simp_all
  then obtain ys where ys: "random_sample rng ?u (min n (int (length ?u))) = Inr ys"
      "int (length ys) = min n (int (length ?u))" "mset ys \<subseteq># mset ?u"
    using random_sample_props by blast
  have sub: "set ?u \<subseteq> set pool"
    by (auto simp: sampling_universe_def split: option.splits)
  have du: "distinct pool \<Longrightarrow> distinct ?u"
    by (auto simp: sampling_universe_def split: option.splits)
  have "set_mset (mset ys) \<subseteq> set_mset (mset ?u)" using ys(3) by (rule set_mset_mono)
  then have "set ys \<subseteq> set pool" using sub by simp
  moreover have "distinct pool \<longrightarrow> distinct ys"
    using du ys(3) distinct_submultiset by blast
  moreover have "select_quiz_questions rng pool n filter_topics = Inr ys"
    using ys(1) by (simp add: select_quiz_questions_def Let_def available_is_universe)
  ultimately show ?thesis using ys(2,3) by blast
qed


theorem select_quiz_questions_sample_witness:
  "(0::int) \<le> 2 \<and>
   (let q1 = \<lparr> question_text = ''Q1'', options = [''a'', ''b'', ''c'', ''d''], correct_answer = 0,
               explanation = ''E1'', topic = ''A'', difficulty = ''easy'' \<rparr>;
        q2 = \<lparr> question_text = ''Q2'', options = [''a'', ''b'', ''c'', ''d''], correct_answer = 1,
               explanation = ''E2'', topic = ''B'', difficulty = ''easy'' \<rparr>;
        q3 = \<lparr> question_text = ''Q3'', options = [''a'', ''b'', ''c'', ''d''], correct_answer = 2,
               explanation = ''E3'', topic = ''A'', difficulty = ''hard'' \<rparr>
    in select_quiz_questions (\<lambda>d. d) [q1, q2, q3] 2 (Some [''A'']) = Inr [q1, q3]
       \<and> sampling_universe [q1, q2, q3] (Some [''A'']) = [q1, q3]
       \<and> (\<exists>selected. select_quiz_questions (\<lambda>d. d) [q1, q2, q3] 2 (Some [''A'']) = Inr selected
           \<and> int (length selected) = min 2 (int (length (sampling_universe [q1, q2, q3] (Some [''A'']))))
           \<and> mset selected \<subseteq># mset (sampling_universe [q1, q2, q3] (Some [''A'']))))"
  using select_quiz_questions_sample [of 2 "\<lambda>d. d"
      "[\<lparr> question_text = ''Q1'', options = [''a'', ''b'', ''c'', ''d''], correct_answer = 0,
               explanation = ''E1'', topic = ''A'', difficulty = ''easy'' \<rparr>,
        \<lparr> question_text = ''Q2'', options = [''a'', ''b'', ''c'', ''d''], correct_answer = 1,
               explanation = ''E2'', topic = ''B'', difficulty = ''easy'' \<rparr>,
        \<lparr> question_text = ''Q3'', options = [''a'', ''b'', ''c'', ''d''], correct_answer = 2,
               explanation = ''E3'', topic = ''A'', difficulty = ''hard'' \<rparr>]" "Some [''A'']"]
  by (simp add: Let_def select_quiz_questions_def available_questions_def sampling_universe_def
      random_sample_def numeral_2_eq_2)

text \<open>
  C6. For every question satisfying the Question invariant and every integer answer
  \<open>i\<close>, in range or not, \<open>check_answer\<close> returns a verdict and does not raise. The
  verdict is correct exactly when \<open>i\<close> equals the question's \<open>correct_answer\<close>, and
  its \<open>user_option\<close> is the option text at \<open>i\<close> when \<open>0 \<le> i < len(options)\<close> and
  \<open>None\<close> otherwise. The question is an immutable value of the model: the function
  returns the verdict only and has no way to change its argument.
\<close>

theorem check_answer_total:
  assumes "question_invariant q"
  shows "\<exists>v. check_answer q i = Inr v
           \<and> (v_correct v \<longleftrightarrow> i = correct_answer q)
           \<and> v_user_option v =
               (if 0 \<le> i \<and> i < int (length (options q))
                then Some (options q ! nat i) else None)
           \<and> v_correct_answer v = correct_answer q
           \<and> v_correct_option v = options q ! nat (correct_answer q)
           \<and> v_explanation v = explanation q"
  using assms by (simp add: check_answer_def question_invariant_def py_index_def Let_def)

theorem check_answer_total_witness:
  "(let q = \<lparr> question_text = ''Q1'', options = [''a'', ''b'', ''c'', ''d''], correct_answer = 2,
              explanation = ''E1'', topic = ''A'', difficulty = ''easy'' \<rparr>
    in question_invariant q
       \<and> check_answer q 7 = Inr \<lparr> v_correct = False, v_correct_answer = 2, v_correct_option = ''c'',
                                   v_user_option = None, v_explanation = ''E1'' \<rparr>
       \<and> check_answer q (- 1) = Inr \<lparr> v_correct = False, v_correct_answer = 2, v_correct_option = ''c'',
                                   v_user_option = None, v_explanation = ''E1'' \<rparr>
       \<and> check_answer q 2 = Inr \<lparr> v_correct = True, v_correct_answer = 2, v_correct_option = ''c'',
                                   v_user_option = Some ''c'', v_explanation = ''E1'' \<rparr>)"
  using check_answer_total [of "\<lparr> question_text = ''Q1'', options = [''a'', ''b'', ''c'', ''d''],
      correct_answer = 2, explanation = ''E1'', topic = ''A'', difficulty = ''easy'' \<rparr>" 7]
  by (simp add: Let_def question_invariant_def check_answer_def py_index_def)

section \<open>Aggregation by topic\<close>

lemma count_result_distinct:
  "distinct (map fst d) \<Longrightarrow> distinct (map fst (count_result r d))"
  by (simp add: count_result_def Let_def distinct_map_entry distinct_update)

lemma count_result_lookup:
  "map_of (count_result r d) t =
     (if t = topic (question r)
      then Some (case map_of d t of
                   None \<Rightarrow> \<lparr> correct = (if is_correct r then 1 else 0), total_answers = 1 \<rparr>
                 | Some s \<Rightarrow> \<lparr> correct = correct s + (if is_correct r then 1 else 0),
                              total_answers = total_answers s + 1 \<rparr>)
      else map_of d t)"
proof (cases "topic (question r) \<in> fst ` set d")
  case True
  then obtain s where "map_of d (topic (question r)) = Some s"
    by (metis domD dom_map_of_conv_image_fst)
  with True show ?thesis
    by (simp add: count_result_def Let_def map_of_map_entry)
next
  case False
  then have "map_of d (topic (question r)) = None"
    by (simp add: map_of_eq_None_iff)
  with False show ?thesis
    by (simp add: count_result_def Let_def map_of_map_entry update_conv')
qed

lemma fold_count_result_distinct:
  "distinct (map fst d) \<Longrightarrow> distinct (map fst (fold count_result rs d))"
  by (induction rs arbitrary: d) (simp_all add: count_result_distinct)

lemma fold_count_result_lookup:
  "map_of (fold count_result rs d) t =
     (case map_of d t of
        None \<Rightarrow> if answers_on t rs = 0 then None
                else Some \<lparr> correct = correct_on t rs, total_answers = answers_on t rs \<rparr>
      | Some s \<Rightarrow> Some \<lparr> correct = correct s + correct_on t rs,
                          total_answers = total_answers s + answers_on t rs \<rparr>)"
proof (induction rs arbitrary: d)
  case Nil
  then show ?case by (simp add: answers_on_def correct_on_def split: option.splits)
next
  case (Cons r rs)
  show ?case
    by (simp add: Cons.IH count_result_lookup answers_on_def correct_on_def
        split: option.splits)
qed

lemma performance_lookup:
  "map_of (calculate_topic_performance rs) t =
     (if answers_on t rs = 0 then None
      else Some (add_percentage \<lparr> correct = correct_on t rs, total_answers = answers_on t rs \<rparr>))"
  by (simp add: calculate_topic_performance_def map_of_map fold_count_result_lookup)

lemma performance_distinct: "distinct (map fst (calculate_topic_performance rs))"
proof -
  have "map fst (calculate_topic_performance rs) = map fst (fold count_result rs [])"
    by (simp add: calculate_topic_performance_def case_prod_unfold comp_def)
  then show ?thesis using fold_count_result_distinct [of "[]" rs] by simp
qed

lemma performance_entry:
  "(t, s) \<in> set (calculate_topic_performance rs) \<longleftrightarrow>
     answers_on t rs > 0
     \<and> s = add_percentage \<lparr> correct = correct_on t rs, total_answers = answers_on t rs \<rparr>"
proof -
  have "(map_of (calculate_topic_performance rs) t = Some s)
        = ((t, s) \<in> set (calculate_topic_performance rs))"
    by (rule map_of_eq_Some_iff) (rule performance_distinct)
  then show ?thesis
    unfolding performance_lookup by (cases "answers_on t rs = 0") auto
qed

lemma counts_permutation:
  assumes "mset rs = mset rs'"
  shows "answers_on t rs = answers_on t rs'" and "correct_on t rs = correct_on t rs'"
proof -
  have "size (filter_mset P (mset rs)) = size (filter_mset P (mset rs'))" for P
    using assms by simp
  then have "length (filter P rs) = length (filter P rs')" for P
    by (metis mset_filter size_mset)
  then show "answers_on t rs = answers_on t rs'" and "correct_on t rs = correct_on t rs'"
    unfolding answers_on_def correct_on_def by blast+
qed

lemma correct_le_answers: "correct_on t rs \<le> answers_on t rs"
proof -
  have "length (filter (\<lambda>r. topic (question r) = t \<and> is_correct r) rs)
        = length (filter is_correct (filter (\<lambda>r. topic (question r) = t) rs))"
    by (simp add: conj_commute)
  then show ?thesis
    unfolding correct_on_def answers_on_def by (metis length_filter_le)
qed

lemmas float_eval = float_percentage_def float_value_def float_mul_int_def int_true_div_def
  round_double_def floor_log2_def round_half_even_def bit_length.simps Let_def

text \<open>
  Two values of the float model beside Python's: \<^verbatim>\<open>29 / 50 * 100\<close> is
  \<^verbatim>\<open>57.99999999999999\<close>, below 58, and \<^verbatim>\<open>2 / 3 * 100\<close> is \<^verbatim>\<open>66.66666666666666\<close>,
  below two thirds of 100.
\<close>

lemma float_percentage_29_50:
  "float_percentage 29 50 = 8162774324609023 / 140737488355328"
  "float_percentage 29 50 < 58"
  by (simp_all add: float_eval)

lemma float_percentage_2_3:
  "float_percentage 2 3 = 2345624805922133 / 35184372088832"
  "float_percentage 2 3 < 200 / 3"
  by (simp_all add: float_eval)

lemma float_percentage_small:
  "float_percentage 0 1 = 0"
  "float_percentage 1 1 = 100"
  "float_percentage 1 2 = 50"
  by (simp_all add: float_eval)

lemma float_percentage_small_Suc:
  "float_percentage 0 (Suc 0) = 0"
  "float_percentage (Suc 0) (Suc 0) = 100"
  "float_percentage (Suc 0) (Suc (Suc 0)) = 50"
  using float_percentage_small by (simp_all add: numeral_2_eq_2)

lemma add_percentage_fields:
  "correct (add_percentage s) = correct s"
  "total_answers (add_percentage s) = total_answers s"
  "percentage (add_percentage s) =
     (if total_answers s > 0 then float_percentage (correct s) (total_answers s) else 0)"
  "status (add_percentage s) =
     (if percentage (add_percentage s) \<ge> 80 then ''Strong''
      else if percentage (add_percentage s) \<ge> 60 then ''Needs Review'' else ''Weak'')"
  by (simp_all add: add_percentage_def Let_def)

lemma weak_entry_fields:
  "wt_topic (weak_entry e) = fst e"
  "wt_percentage (weak_entry e) = percentage (snd e)"
  "wt_status (weak_entry e) = status (snd e)"
  by (simp_all add: weak_entry_def)

lemma weak_topics_set:
  "set (get_weak_topics perf th) = weak_entry ` {e \<in> set perf. percentage (snd e) < th}"
  by (auto simp: get_weak_topics_def)

lemma weak_topics_names:
  "mset (map wt_topic (get_weak_topics perf th))
   = mset (map fst (filter (\<lambda>e. percentage (snd e) < th) perf))"
proof -
  have e: "map wt_topic (map weak_entry xs) = map fst xs" for xs
    by (simp add: comp_def weak_entry_fields)
  have "mset (map wt_topic (get_weak_topics perf th))
     = mset (map wt_topic (map weak_entry (filter (\<lambda>e. percentage (snd e) < th) perf)))"
    unfolding get_weak_topics_def by (simp only: mset_map mset_sort)
  then show ?thesis by (simp only: e)
qed

lemma weak_topics_distinct:
  assumes "distinct (map fst perf)"
  shows "distinct (map wt_topic (get_weak_topics perf th))"
proof -
  have "distinct (map fst (filter (\<lambda>e. percentage (snd e) < th) perf))"
    using assms by (rule distinct_map_filter)
  then show ?thesis
    using weak_topics_names [of perf th] mset_eq_imp_distinct_iff by blast
qed

lemma weak_topics_sorted: "sorted (map wt_percentage (get_weak_topics perf th))"
  by (simp add: get_weak_topics_def)

lemma weak_topics_stable:
  "map wt_topic (filter (\<lambda>w. wt_percentage w = p) (get_weak_topics perf th))
   = map fst (filter (\<lambda>e. percentage (snd e) = p \<and> percentage (snd e) < th) perf)"
proof -
  have "filter (\<lambda>w. wt_percentage w = p) (get_weak_topics perf th)
        = filter (\<lambda>w. wt_percentage w = p)
            (map weak_entry (filter (\<lambda>e. percentage (snd e) < th) perf))"
    unfolding get_weak_topics_def by (rule sort_key_stable)
  then show ?thesis
    by (simp add: filter_map comp_def weak_entry_fields conj_commute)
qed

text \<open>
  C7. For every sequence of graded answers and every threshold: each topic stat has
  \<open>percentage = correct / total * 100\<close>, the float Python computes (its total is
  positive and not below its correct count), with status Strong
  when the percentage is at least 80, Needs Review when it is at least 60 and below 80,
  and Weak below 60; the weak-topic list holds exactly the topics whose percentage is
  strictly below the threshold, each once and with its stat's percentage and status, in
  ascending order of percentage, and topics of equal percentage keep the iteration order
  of the topic map.
\<close>

theorem topic_status_and_weak_topics:
  "(\<forall>(t, s) \<in> set (calculate_topic_performance answers).
       0 < total_answers s \<and> correct s \<le> total_answers s
     \<and> percentage s = float_percentage (correct s) (total_answers s)
     \<and> (80 \<le> percentage s \<longrightarrow> status s = ''Strong'')
     \<and> (60 \<le> percentage s \<and> percentage s < 80 \<longrightarrow> status s = ''Needs Review'')
     \<and> (percentage s < 60 \<longrightarrow> status s = ''Weak''))
   \<and> (let perf = calculate_topic_performance answers;
           weak = get_weak_topics perf threshold
       in set (map wt_topic weak) = {t. \<exists>s. (t, s) \<in> set perf \<and> percentage s < threshold}
        \<and> distinct (map wt_topic weak)
        \<and> (\<forall>w \<in> set weak. \<exists>s. (wt_topic w, s) \<in> set perf
               \<and> wt_percentage w = percentage s \<and> wt_status w = status s)
        \<and> sorted (map wt_percentage weak)
        \<and> (\<forall>p. map wt_topic (filter (\<lambda>w. wt_percentage w = p) weak)
                 = map fst (filter (\<lambda>e. percentage (snd e) = p
                                          \<and> percentage (snd e) < threshold) perf)))"
proof -
  let ?perf = "calculate_topic_performance answers"
  let ?weak = "get_weak_topics ?perf threshold"
  have a: "\<forall>(t, s) \<in> set ?perf.
       0 < total_answers s \<and> correct s \<le> total_answers s
     \<and> percentage s = float_percentage (correct s) (total_answers s)
     \<and> (80 \<le> percentage s \<longrightarrow> status s = ''Strong'')
     \<and> (60 \<le> percentage s \<and> percentage s < 80 \<longrightarrow> status s = ''Needs Review'')
     \<and> (percentage s < 60 \<longrightarrow> status s = ''Weak'')"
  proof (clarify)
    fix t s assume "(t, s) \<in> set ?perf"
    then have pos: "answers_on t answers > 0"
      and s: "s = add_percentage \<lparr> correct = correct_on t answers,
                                   total_answers = answers_on t answers \<rparr>"
      by (simp_all add: performance_entry)
    show "0 < total_answers s \<and> correct s \<le> total_answers s
     \<and> percentage s = float_percentage (correct s) (total_answers s)
     \<and> (80 \<le> percentage s \<longrightarrow> status s = ''Strong'')
     \<and> (60 \<le> percentage s \<and> percentage s < 80 \<longrightarrow> status s = ''Needs Review'')
     \<and> (percentage s < 60 \<longrightarrow> status s = ''Weak'')"
      unfolding s using pos correct_le_answers [of t answers]
      by (simp add: add_percentage_fields)
  qed
  have b: "set (map wt_topic ?weak) = {t. \<exists>s. (t, s) \<in> set ?perf \<and> percentage s < threshold}"
    by (force simp: weak_topics_set weak_entry_fields image_iff)
  have c: "distinct (map wt_topic ?weak)"
    by (rule weak_topics_distinct) (rule performance_distinct)
  have d: "\<forall>w \<in> set ?weak. \<exists>s. (wt_topic w, s) \<in> set ?perf
               \<and> wt_percentage w = percentage s \<and> wt_status w = status s"
    by (auto simp: weak_topics_set weak_entry_fields)
  show ?thesis
    unfolding Let_def using a b c d weak_topics_sorted weak_topics_stable by blast
qed

text \<open>
  C8. For every sequence of graded answers and every permutation of it, the aggregation
  gives every topic the same entry (correct count, total count, percentage and status),
  and the same set of entries: only the order of the topics in the map can differ.
\<close>

theorem aggregation_permutation_invariant:
  assumes "mset answers = mset answers'"
  shows "map_of (calculate_topic_performance answers) t
           = map_of (calculate_topic_performance answers') t
         \<and> set (calculate_topic_performance answers)
           = set (calculate_topic_performance answers')"
proof -
  have c: "answers_on u answers = answers_on u answers'"
          "correct_on u answers = correct_on u answers'" for u
    using counts_permutation [OF assms] by simp_all
  have "map_of (calculate_topic_performance answers) t
           = map_of (calculate_topic_performance answers') t"
    by (simp add: performance_lookup c)
  moreover have "set (calculate_topic_performance answers)
           = set (calculate_topic_performance answers')"
    by (auto simp: performance_entry c)
  ultimately show ?thesis by simp
qed

theorem aggregation_permutation_invariant_witness:
  "(let q = (\<lambda>t. \<lparr> question_text = ''Q'', options = [''a'', ''b'', ''c'', ''d''],
                      correct_answer = 0, explanation = ''E'', topic = t,
                      difficulty = ''easy'' \<rparr>);
        r1 = \<lparr> question = q ''A'', user_answer = 0, is_correct = True \<rparr>;
        r2 = \<lparr> question = q ''B'', user_answer = 1, is_correct = False \<rparr>;
        r3 = \<lparr> question = q ''A'', user_answer = 2, is_correct = False \<rparr>
    in mset [r1, r2, r3] = mset [r2, r3, r1]
       \<and> map fst (calculate_topic_performance [r1, r2, r3]) = [''A'', ''B'']
       \<and> map fst (calculate_topic_performance [r2, r3, r1]) = [''B'', ''A'']
       \<and> map_of (calculate_topic_performance [r1, r2, r3]) ''A''
         = Some \<lparr> correct = 1, total_answers = 2, percentage = 50, status = ''Weak'' \<rparr>
       \<and> map_of (calculate_topic_performance [r1, r2, r3]) ''A''
         = map_of (calculate_topic_performance [r2, r3, r1]) ''A'')"
proof -
  let ?q = "\<lambda>t. \<lparr> question_text = ''Q'', options = [''a'', ''b'', ''c'', ''d''],
                      correct_answer = 0, explanation = ''E'', topic = t,
                      difficulty = ''easy'' \<rparr>"
  let ?r1 = "\<lparr> question = ?q ''A'', user_answer = 0, is_correct = True \<rparr>"
  let ?r2 = "\<lparr> question = ?q ''B'', user_answer = 1, is_correct = False \<rparr>"
  let ?r3 = "\<lparr> question = ?q ''A'', user_answer = 2, is_correct = False \<rparr>"
  have m: "mset [?r1, ?r2, ?r3] = mset [?r2, ?r3, ?r1]" by simp
  have e1: "calculate_topic_performance [?r1, ?r2, ?r3]
     = [(''A'', \<lparr> correct = 1, total_answers = 2, percentage = 50, status = ''Weak'' \<rparr>),
        (''B'', \<lparr> correct = 0, total_answers = 1, percentage = 0, status = ''Weak'' \<rparr>)]"
    by (simp add: calculate_topic_performance_def count_result_def add_percentage_def Let_def
        float_percentage_small_Suc)
  have e2: "calculate_topic_performance [?r2, ?r3, ?r1]
     = [(''B'', \<lparr> correct = 0, total_answers = 1, percentage = 0, status = ''Weak'' \<rparr>),
        (''A'', \<lparr> correct = 1, total_answers = 2, percentage = 50, status = ''Weak'' \<rparr>)]"
    by (simp add: calculate_topic_performance_def count_result_def add_percentage_def Let_def
        float_percentage_small_Suc)
  from aggregation_permutation_invariant [OF m, of "''A''"]
  have "map_of (calculate_topic_performance [?r1, ?r2, ?r3]) ''A''
         = map_of (calculate_topic_performance [?r2, ?r3, ?r1]) ''A''" by (rule conjunct1)
  then show ?thesis unfolding Let_def using m e1 e2 by simp
qed

theorem topic_status_and_weak_topics_witness:
  "(let r = (\<lambda>t c. \<lparr> question = \<lparr> question_text = ''Q'', options = [''a'', ''b'', ''c'', ''d''],
                                        correct_answer = 0, explanation = ''E'', topic = t,
                                        difficulty = ''easy'' \<rparr>,
                         user_answer = (if c then 0 else 1), is_correct = c \<rparr>);
        answers = [r ''A'' True, r ''B'' False, r ''C'' True, r ''C'' True, r ''C'' False,
                   r ''D'' False];
        perf = calculate_topic_performance answers;
        weak = get_weak_topics perf 67
    in perf = [(''A'', \<lparr> correct = 1, total_answers = 1, percentage = 100, status = ''Strong'' \<rparr>),
               (''B'', \<lparr> correct = 0, total_answers = 1, percentage = 0, status = ''Weak'' \<rparr>),
               (''C'', \<lparr> correct = 2, total_answers = 3,
                        percentage = 2345624805922133 / 35184372088832,
                        status = ''Needs Review'' \<rparr>),
               (''D'', \<lparr> correct = 0, total_answers = 1, percentage = 0, status = ''Weak'' \<rparr>)]
       \<and> weak = [\<lparr> wt_topic = ''B'', wt_score = ''0/1'', wt_percentage = 0, wt_status = ''Weak'' \<rparr>,
                 \<lparr> wt_topic = ''D'', wt_score = ''0/1'', wt_percentage = 0, wt_status = ''Weak'' \<rparr>,
                 \<lparr> wt_topic = ''C'', wt_score = ''2/3'',
                   wt_percentage = 2345624805922133 / 35184372088832,
                   wt_status = ''Needs Review'' \<rparr>]
       \<and> (\<forall>(t, s) \<in> set perf. 0 < total_answers s
              \<and> percentage s = float_percentage (correct s) (total_answers s))
       \<and> sorted (map wt_percentage weak)
       \<and> map wt_topic (filter (\<lambda>w. wt_percentage w = 0) weak)
         = map fst (filter (\<lambda>e. percentage (snd e) = 0 \<and> percentage (snd e) < 67) perf))"
proof -
  let ?r = "\<lambda>t c. \<lparr> question = \<lparr> question_text = ''Q'', options = [''a'', ''b'', ''c'', ''d''],
                                        correct_answer = 0, explanation = ''E'', topic = t,
                                        difficulty = ''easy'' \<rparr>,
                         user_answer = (if c then 0 else 1), is_correct = c \<rparr>"
  let ?answers = "[?r ''A'' True, ?r ''B'' False, ?r ''C'' True, ?r ''C'' True, ?r ''C'' False,
                   ?r ''D'' False]"
  let ?perf = "calculate_topic_performance ?answers"
  have f: "fold count_result ?answers [] =
      [(''A'', \<lparr> correct = 1, total_answers = 1 \<rparr>),
       (''B'', \<lparr> correct = 0, total_answers = 1 \<rparr>),
       (''C'', \<lparr> correct = 2, total_answers = 3 \<rparr>),
       (''D'', \<lparr> correct = 0, total_answers = 1 \<rparr>)]"
    by (simp add: count_result_def Let_def)
  have e1: "?perf =
      [(''A'', \<lparr> correct = 1, total_answers = 1, percentage = 100, status = ''Strong'' \<rparr>),
       (''B'', \<lparr> correct = 0, total_answers = 1, percentage = 0, status = ''Weak'' \<rparr>),
       (''C'', \<lparr> correct = 2, total_answers = 3,
                percentage = 2345624805922133 / 35184372088832,
                status = ''Needs Review'' \<rparr>),
       (''D'', \<lparr> correct = 0, total_answers = 1, percentage = 0, status = ''Weak'' \<rparr>)]"
    unfolding calculate_topic_performance_def f
    by (simp add: add_percentage_def Let_def float_percentage_small
        float_percentage_small_Suc float_percentage_2_3(1))
  have e2: "get_weak_topics ?perf 67 =
      [\<lparr> wt_topic = ''B'', wt_score = ''0/1'', wt_percentage = 0, wt_status = ''Weak'' \<rparr>,
       \<lparr> wt_topic = ''D'', wt_score = ''0/1'', wt_percentage = 0, wt_status = ''Weak'' \<rparr>,
       \<lparr> wt_topic = ''C'', wt_score = ''2/3'',
         wt_percentage = 2345624805922133 / 35184372088832,
         wt_status = ''Needs Review'' \<rparr>]"
    unfolding e1 by (simp add: get_weak_topics_def weak_entry_def str_nat.simps)
  note t = topic_status_and_weak_topics [of ?answers 67, unfolded Let_def]
  have a: "\<forall>(t, s) \<in> set ?perf. 0 < total_answers s
              \<and> percentage s = float_percentage (correct s) (total_answers s)"
    using t by blast
  have b: "sorted (map wt_percentage (get_weak_topics ?perf 67))"
    using t by blast
  have c: "map wt_topic (filter (\<lambda>w. wt_percentage w = 0) (get_weak_topics ?perf 67))
         = map fst (filter (\<lambda>e. percentage (snd e) = 0 \<and> percentage (snd e) < 67) ?perf)"
    using t by blast
  show ?thesis unfolding Let_def
    using e1 e2 a b c by (intro conjI)
qed

section \<open>The retry loop\<close>





lemma other_reset: "other_error (Exception ''connection reset'')"
  by (simp add: other_error_def is_transient_def is_not_found_def lower_def lower_char_def)



section \<open>Facts about the helpers\<close>

text \<open>
  The reads \<^verbatim>\<open>[1]\<close> and \<^verbatim>\<open>[0]\<close> of \<open>strip_code_fence\<close> are in range: a text that
  contains the separator splits into at least two pieces, and a split is never empty.
\<close>

lemma split_go_nonempty: "split_go sep k cur s \<noteq> []"
  by (induction s arbitrary: k cur) auto

lemma split_go_two:
  "sep \<noteq> [] \<Longrightarrow> contains sep s \<Longrightarrow> 2 \<le> length (split_go sep 0 cur s)"
proof (induction s arbitrary: cur)
  case Nil
  then show ?case by simp
next
  case (Cons c cs)
  show ?case
  proof (cases "take (length sep) (c # cs) = sep")
    case True
    have "split_go sep (length sep - 1) [] cs \<noteq> []" by (rule split_go_nonempty)
    then have "1 \<le> length (split_go sep (length sep - 1) [] cs)"
      by (cases "split_go sep (length sep - 1) [] cs") simp_all
    with True show ?thesis by simp
  next
    case False
    with Cons.prems have "contains sep cs" by simp
    with Cons.IH Cons.prems False show ?thesis by simp
  qed
qed

lemma split_index_in_range:
  "sep \<noteq> [] \<Longrightarrow> contains sep s \<Longrightarrow> 1 < length (split sep s)"
  "0 < length (split sep s)"
  using split_go_two [of sep s "[]"] split_go_nonempty [of sep 0 "[]" s]
  by (auto simp: split_def)

lemma all_in_True: "all_in keys v = Inr True \<longleftrightarrow> (\<forall>k \<in> set keys. py_in k v = Inr True)"
  by (induction keys) (auto split: sum.splits)

lemma attempts_provenance:
  "attempts completion req n as w = (Returned response, w')
     \<Longrightarrow> \<exists>i. completion i req = Inr response"
proof (induction as arbitrary: w)
  case Nil
  then show ?case by simp
next
  case (Cons a as)
  show ?case
  proof (cases "completion (calls w) req")
    case (Inr r)
    with Cons.prems show ?thesis by auto
  next
    case (Inl e)
    with Cons.prems Cons.IH show ?thesis
      by (auto split: if_splits)
  qed
qed

lemma models_loop_provenance:
  "models_loop completion mk n ms w = (Inr response, w')
     \<Longrightarrow> \<exists>i r. completion i r = Inr response"
proof (induction ms arbitrary: w)
  case Nil
  then show ?case by simp
next
  case (Cons m ms)
  obtain res w1 where a: "attempts completion (mk m) n [0..<n] w = (res, w1)"
    by (cases "attempts completion (mk m) n [0..<n] w")
  show ?case
  proof (cases res)
    case (Returned r)
    with a Cons.prems have "r = response" by simp
    with a Returned attempts_provenance show ?thesis by blast
  next
    case (Raised e)
    with a Cons.prems show ?thesis by simp
  next
    case Next_model
    with a Cons.prems Cons.IH show ?thesis by simp
  qed
qed

lemma call_llm_provenance:
  "call_llm_with_retry completion msgs temp toks n w = (Inr response, w')
     \<Longrightarrow> \<exists>i r. completion i r = Inr response"
  unfolding call_llm_with_retry_def by (rule models_loop_provenance)

lemma shuffle_loop_mset:
  "\<forall>i \<in> set is. i < length x \<Longrightarrow> mset (shuffle_loop rng d is x) = mset x"
proof (induction "is" arbitrary: d x)
  case Nil
  then show ?case by simp
next
  case (Cons i rest)
  let ?j = "rng d mod (i + 1)"
  have i: "i < length x" using Cons.prems by simp
  have "?j < i + 1" by simp
  with i have j: "?j < length x" by linarith
  have "mset (x[i := x ! ?j, ?j := x ! i]) = mset x"
    using mset_swap [OF j i] .
  moreover have "\<forall>k \<in> set rest. k < length (x[i := x ! ?j, ?j := x ! i])"
    using Cons.prems by simp
  ultimately show ?case using Cons.IH [of "x[i := x ! ?j, ?j := x ! i]" "Suc d"]
    by (simp add: Let_def)
qed

lemma random_shuffle_mset: "mset (random_shuffle rng x) = mset x"
  unfolding random_shuffle_def by (rule shuffle_loop_mset) simp

lemma random_shuffle_set: "set (random_shuffle rng x) = set x"
  using random_shuffle_mset [of rng x] by (metis set_mset_mset)

lemma random_shuffle_length: "length (random_shuffle rng x) = length x"
  using random_shuffle_mset [of rng x] by (metis size_mset)

section \<open>Notes synthesis\<close>

lemma notes_except_failed: "\<exists>err raw. notes_except e c = NotesFailed err raw"
  by (cases e) (simp_all add: notes_except_def)

lemma all_in_object:
  "all_in keys (JObj kvs) = Inr (set keys \<subseteq> fst ` set kvs)"
  by (induction keys) auto

text \<open>
  C2, as the code has it. For every transcript of at least 100 characters
  \<open>generate_notes\<close> returns a result, as follows. When the generation client raises, the
  result is a failure with the client's error in its message and no raw text; only when
  the error raised is a JSONDecodeError it has the parse-failure message and the raw text
  \<^verbatim>\<open>No response\<close>. When the response text, the code fence removed, is not valid JSON,
  the result is a failure that carries that text as raw text. When it parses to a JSON
  object, the result is a success holding that object and the token usage if all four
  required keys are keys of the object, and a failure if one is missing. A success
  result always holds exactly what the response parsed to, and each required key is
  \<^verbatim>\<open>in\<close> it.
\<close>

theorem generate_notes_result:
  assumes "100 \<le> length transcript"
  shows "(\<forall>e w'. call_llm_with_retry completion (notes_prompt transcript) (3 / 10) 4000 3 w
                    = (Inl e, w') \<longrightarrow>
            generate_notes completion loads transcript w
              = (case e of
                   JSONDecodeError m \<Rightarrow>
                     NotesFailed (''Failed to parse LLM response as JSON: '' @ m)
                       (Some ''No response'')
                 | _ \<Rightarrow> NotesFailed (''Error generating notes: '' @ str_exn e) None,
                 w'))
       \<and> (\<forall>response w' m.
            call_llm_with_retry completion (notes_prompt transcript) (3 / 10) 4000 3 w
              = (Inr response, w')
            \<and> loads (strip_code_fence (content response)) = Inl m \<longrightarrow>
            generate_notes completion loads transcript w
              = (NotesFailed (''Failed to parse LLM response as JSON: '' @ m)
                   (Some (strip_code_fence (content response))), w'))
       \<and> (\<forall>response w' kvs.
            call_llm_with_retry completion (notes_prompt transcript) (3 / 10) 4000 3 w
              = (Inr response, w')
            \<and> loads (strip_code_fence (content response)) = Inr (JObj kvs) \<longrightarrow>
            (if set required_keys \<subseteq> fst ` set kvs
             then generate_notes completion loads transcript w
                    = (NotesOk (JObj kvs) (usage response), w')
             else \<exists>err raw. generate_notes completion loads transcript w
                    = (NotesFailed err raw, w')))
       \<and> (\<forall>nd u w'. generate_notes completion loads transcript w = (NotesOk nd u, w') \<longrightarrow>
            (\<exists>response. call_llm_with_retry completion (notes_prompt transcript) (3 / 10) 4000 3 w
                            = (Inr response, w')
                 \<and> loads (strip_code_fence (content response)) = Inr nd
                 \<and> u = usage response)
          \<and> (\<forall>k \<in> set required_keys. py_in k nd = Inr True))"
proof -
  let ?call = "call_llm_with_retry completion (notes_prompt transcript) (3 / 10) 4000 3 w"
  have A: "\<forall>e w'. ?call = (Inl e, w') \<longrightarrow>
            generate_notes completion loads transcript w
              = (case e of
                   JSONDecodeError m \<Rightarrow>
                     NotesFailed (''Failed to parse LLM response as JSON: '' @ m)
                       (Some ''No response'')
                 | _ \<Rightarrow> NotesFailed (''Error generating notes: '' @ str_exn e) None,
                 w')"
  proof (intro allI impI)
    fix e w'
    assume "?call = (Inl e, w')"
    with assms show "generate_notes completion loads transcript w
              = (case e of
                   JSONDecodeError m \<Rightarrow>
                     NotesFailed (''Failed to parse LLM response as JSON: '' @ m)
                       (Some ''No response'')
                 | _ \<Rightarrow> NotesFailed (''Error generating notes: '' @ str_exn e) None,
                 w')"
      by (cases e) (simp_all add: generate_notes_def notes_except_def)
  qed
  have B: "\<forall>response w' m.
            ?call = (Inr response, w')
            \<and> loads (strip_code_fence (content response)) = Inl m \<longrightarrow>
            generate_notes completion loads transcript w
              = (NotesFailed (''Failed to parse LLM response as JSON: '' @ m)
                   (Some (strip_code_fence (content response))), w')"
    using assms by (simp add: generate_notes_def Let_def notes_except_def)
  have C: "\<forall>response w' kvs.
            ?call = (Inr response, w')
            \<and> loads (strip_code_fence (content response)) = Inr (JObj kvs) \<longrightarrow>
            (if set required_keys \<subseteq> fst ` set kvs
             then generate_notes completion loads transcript w
                    = (NotesOk (JObj kvs) (usage response), w')
             else \<exists>err raw. generate_notes completion loads transcript w
                    = (NotesFailed err raw, w'))"
    using assms
    by (simp add: generate_notes_def Let_def notes_except_def all_in_object)
  have D: "\<forall>nd u w'. generate_notes completion loads transcript w = (NotesOk nd u, w') \<longrightarrow>
            (\<exists>response. ?call = (Inr response, w')
                 \<and> loads (strip_code_fence (content response)) = Inr nd
                 \<and> u = usage response)
          \<and> (\<forall>k \<in> set required_keys. py_in k nd = Inr True)"
  proof (intro allI impI)
    fix nd u w'
    assume ok: "generate_notes completion loads transcript w = (NotesOk nd u, w')"
    obtain res w1 where c: "?call = (res, w1)" by (cases ?call)
    have nf: "notes_except e c \<noteq> NotesOk nd u" for e c
      using notes_except_failed [of e c] by auto
    from ok c assms obtain response where r: "res = Inr response"
      by (cases res) (auto simp: generate_notes_def nf)
    from ok c r assms obtain v where l: "loads (strip_code_fence (content response)) = Inr v"
      by (cases "loads (strip_code_fence (content response))")
         (auto simp: generate_notes_def Let_def nf)
    from ok c r l assms have a: "all_in required_keys v = Inr True" and e: "nd = v"
      "u = usage response" "w' = w1"
      by (auto simp: generate_notes_def Let_def nf split: sum.splits if_splits)
    have k: "\<forall>k \<in> set required_keys. py_in k nd = Inr True"
      using a e by (simp add: all_in_True)
    have p: "\<exists>response. ?call = (Inr response, w')
                 \<and> loads (strip_code_fence (content response)) = Inr nd
                 \<and> u = usage response"
      using c r l e by auto
    show "(\<exists>response. ?call = (Inr response, w')
                 \<and> loads (strip_code_fence (content response)) = Inr nd
                 \<and> u = usage response)
          \<and> (\<forall>k \<in> set required_keys. py_in k nd = Inr True)"
      using k p by (intro conjI)
  qed
  show ?thesis using A B C D by (intro conjI)
qed

lemma upt_3: "[0..<3] = [0, 1, 2]"
  by (simp add: upt_conv_Cons)

lemma not_found_404:
  "\<not> is_transient ''404 model not found''" "is_not_found ''404 model not found''"
  by (simp_all add: is_transient_def is_not_found_def lower_def lower_char_def)

text \<open>
  Two failure results without any raw text: every model is unavailable, so that there is
  no response at all; and the response parses to an object without the required fields.
\<close>

theorem failure_without_raw_text_counterexample:
  "generate_notes (\<lambda>i r. Inl (Exception ''404 model not found''))
     (\<lambda>s. Inl ''Expecting value: line 1 column 1 (char 0)'')
     (replicate 100 (CHR ''a''))
     \<lparr> calls = 0, sleeps = [] \<rparr>
   = (NotesFailed
        ''Error generating notes: All models failed. Please check your API keys or try again later.''
        None,
      \<lparr> calls = 2, sleeps = [] \<rparr>)
   \<and> generate_notes
     (\<lambda>i r. Inr \<lparr> content = ''{}'',
                   usage = \<lparr> prompt_tokens = 300, completion_tokens = 1, total_tokens = 301 \<rparr> \<rparr>)
     (\<lambda>s. if s = ''{}'' then Inr (JObj []) else Inl ''Expecting value: line 1 column 1 (char 0)'')
     (replicate 100 (CHR ''a''))
     \<lparr> calls = 0, sleeps = [] \<rparr>
   = (NotesFailed ''Error generating notes: LLM response missing required fields'' None,
      \<lparr> calls = 1, sleeps = [] \<rparr>)"
  by (simp add: generate_notes_def call_llm_with_retry_def MODEL_CHAIN_def upt_3 not_found_404
      strip_code_fence_def required_keys_def notes_except_def Let_def)

theorem generate_notes_result_witness:
  \<open>100 \<le> length (replicate 100 (CHR ''a''))
   \<and> generate_notes
       (\<lambda>i r. Inr \<lparr> content = ''```json\<newline>{"summary": "S", "key_concepts": [], "topics": [], "detailed_notes": "D"}\<newline>```'',
                     usage = \<lparr> prompt_tokens = 300, completion_tokens = 30, total_tokens = 330 \<rparr> \<rparr>)
       (\<lambda>s. if s = ''{"summary": "S", "key_concepts": [], "topics": [], "detailed_notes": "D"}''
            then Inr (JObj [(''summary'', JStr ''S''), (''key_concepts'', JArr []),
                            (''topics'', JArr []), (''detailed_notes'', JStr ''D'')])
            else Inl ''Expecting value: line 1 column 1 (char 0)'')
       (replicate 100 (CHR ''a''))
       \<lparr> calls = 0, sleeps = [] \<rparr>
     = (NotesOk (JObj [(''summary'', JStr ''S''), (''key_concepts'', JArr []),
                       (''topics'', JArr []), (''detailed_notes'', JStr ''D'')])
          \<lparr> prompt_tokens = 300, completion_tokens = 30, total_tokens = 330 \<rparr>,
        \<lparr> calls = 1, sleeps = [] \<rparr>)
   \<and> generate_notes
       (\<lambda>i r. Inr \<lparr> content = ''Sorry, I cannot do that.'',
                     usage = \<lparr> prompt_tokens = 300, completion_tokens = 6, total_tokens = 306 \<rparr> \<rparr>)
       (\<lambda>s. Inl ''Expecting value: line 1 column 1 (char 0)'')
       (replicate 100 (CHR ''a''))
       \<lparr> calls = 0, sleeps = [] \<rparr>
     = (NotesFailed
          ''Failed to parse LLM response as JSON: Expecting value: line 1 column 1 (char 0)''
          (Some ''Sorry, I cannot do that.''),
        \<lparr> calls = 1, sleeps = [] \<rparr>)\<close>
proof -
  have h: "100 \<le> length (replicate 100 (CHR ''a''))" by simp
  let ?completion = "\<lambda>(i::nat) (r::request). (Inr \<lparr> content = ''Sorry, I cannot do that.'',
      usage = \<lparr> prompt_tokens = 300, completion_tokens = 6, total_tokens = 306 \<rparr> \<rparr>
        :: exn + response)"
  let ?loads = "\<lambda>s::string. (Inl ''Expecting value: line 1 column 1 (char 0)'' :: string + json)"
  let ?w = "\<lparr> calls = 0, sleeps = [] \<rparr>"
  have c: "call_llm_with_retry ?completion (notes_prompt (replicate 100 (CHR ''a''))) (3 / 10) 4000 3 ?w
      = (Inr \<lparr> content = ''Sorry, I cannot do that.'',
      usage = \<lparr> prompt_tokens = 300, completion_tokens = 6, total_tokens = 306 \<rparr> \<rparr>,
         \<lparr> calls = 1, sleeps = [] \<rparr>)"
    by (simp add: call_llm_with_retry_def MODEL_CHAIN_def upt_3)
  have s: "strip_code_fence ''Sorry, I cannot do that.'' = ''Sorry, I cannot do that.''"
    by (simp add: strip_code_fence_def)
  have f: "generate_notes ?completion ?loads (replicate 100 (CHR ''a'')) ?w
     = (NotesFailed
          ''Failed to parse LLM response as JSON: Expecting value: line 1 column 1 (char 0)''
          (Some ''Sorry, I cannot do that.''),
        \<lparr> calls = 1, sleeps = [] \<rparr>)"
    using generate_notes_result [OF h, where completion = ?completion and loads = ?loads
        and w = ?w] c s by simp
  have g: \<open>generate_notes
       (\<lambda>i r. Inr \<lparr> content = ''```json\<newline>{"summary": "S", "key_concepts": [], "topics": [], "detailed_notes": "D"}\<newline>```'',
                     usage = \<lparr> prompt_tokens = 300, completion_tokens = 30, total_tokens = 330 \<rparr> \<rparr>)
       (\<lambda>s. if s = ''{"summary": "S", "key_concepts": [], "topics": [], "detailed_notes": "D"}''
            then Inr (JObj [(''summary'', JStr ''S''), (''key_concepts'', JArr []),
                            (''topics'', JArr []), (''detailed_notes'', JStr ''D'')])
            else Inl ''Expecting value: line 1 column 1 (char 0)'')
       (replicate 100 (CHR ''a''))
       \<lparr> calls = 0, sleeps = [] \<rparr>
     = (NotesOk (JObj [(''summary'', JStr ''S''), (''key_concepts'', JArr []),
                       (''topics'', JArr []), (''detailed_notes'', JStr ''D'')])
          \<lparr> prompt_tokens = 300, completion_tokens = 30, total_tokens = 330 \<rparr>,
        \<lparr> calls = 1, sleeps = [] \<rparr>)\<close>
    by (simp add: generate_notes_def call_llm_with_retry_def MODEL_CHAIN_def upt_3
      strip_code_fence_def required_keys_def notes_except_def Let_def split_def strip_def
      is_space_def)
  show ?thesis using h f g by (intro conjI)
qed

section \<open>Assembling the question bank\<close>

lemma questions_prompt_ok:
  "tier \<in> {''easy'', ''medium'', ''hard''} \<Longrightarrow> \<exists>p. questions_prompt nd tier n = Inr p"
  by (auto simp: questions_prompt_def difficulty_instructions_def Let_def)

lemma tier_call_fails:
  "questions_prompt nd tier n = Inr p \<Longrightarrow>
   call_llm_with_retry completion p (7 / 10) 3000 3 w = (Inl e, w') \<Longrightarrow>
   generate_questions_by_difficulty completion loads nd tier n w = (Inr (JArr []), w')"
  by (simp add: generate_questions_by_difficulty_def)

lemma tier_parse_fails:
  "questions_prompt nd tier n = Inr p \<Longrightarrow>
   call_llm_with_retry completion p (7 / 10) 3000 3 w = (Inr response, w') \<Longrightarrow>
   loads (strip_code_fence (content response)) = Inl m \<Longrightarrow>
   generate_questions_by_difficulty completion loads nd tier n w = (Inr (JArr []), w')"
  by (simp add: generate_questions_by_difficulty_def)

lemma batch_items_JArr: "batch_items (JArr ys) = ys"
  by (simp add: batch_items_def)

lemma extend_items:
  "list_extend acc v = Inr acc' \<Longrightarrow> acc' = acc @ batch_items v"
  by (cases v) (auto simp: batch_items_def)

lemma tier_parsed:
  "questions_prompt nd tier n = Inr p \<Longrightarrow>
   call_llm_with_retry completion p (7 / 10) 3000 3 w = (Inr response, w1) \<Longrightarrow>
   loads (strip_code_fence (content response)) = Inr v \<Longrightarrow>
   generate_questions_by_difficulty completion loads nd tier n w
     = (Inr (case v of JObj kvs \<Rightarrow> JArr [v] | _ \<Rightarrow> v), w1)"
  by (simp add: generate_questions_by_difficulty_def)

lemma tiers_loop_batches:
  "tiers_loop completion loads nd mix acc w = (Inr all_questions, w')
     \<Longrightarrow> \<exists>batches. tier_batches completion loads nd mix w = (Inr batches, w')
           \<and> all_questions = acc @ concat (map batch_items batches)"
proof (induction mix arbitrary: acc w)
  case Nil
  then show ?case by simp
next
  case (Cons tn rest)
  obtain tier n where tn: "tn = (tier, n)" by (cases tn)
  show ?case
  proof (cases "n > 0")
    case False
    with Cons tn show ?thesis by simp
  next
    case True
    obtain res w1 where g:
      "generate_questions_by_difficulty completion loads nd tier n w = (res, w1)"
      by (cases "generate_questions_by_difficulty completion loads nd tier n w")
    from Cons.prems tn True g obtain v where v: "res = Inr v"
      by (cases res) simp_all
    from Cons.prems tn True g v obtain acc' where e: "list_extend acc v = Inr acc'"
      by (cases "list_extend acc v") simp_all
    from Cons.prems tn True g v e
    have "tiers_loop completion loads nd rest acc' w1 = (Inr all_questions, w')"
      by simp
    with Cons.IH obtain batches where
      b: "tier_batches completion loads nd rest w1 = (Inr batches, w')"
      and a: "all_questions = acc' @ concat (map batch_items batches)"
      by blast
    have "tier_batches completion loads nd (tn # rest) w = (Inr (v # batches), w')"
      using tn True g v b by simp
    moreover have "all_questions = acc @ concat (map batch_items (v # batches))"
      using a extend_items [OF e] by simp
    ultimately show ?thesis by blast
  qed
qed

text \<open>
  C1, as the code has it. During question-bank assembly no question is checked or
  excluded. A tier whose response parses returns exactly the parsed value (a single
  object wrapped in a list); the list \<open>generate_questions\<close> returns is a permutation of
  all the elements of all the tiers' batches, and \<open>total_generated\<close> is their number. So
  every returned question satisfies the Question invariant exactly when every generated
  question does.
\<close>

theorem pool_is_every_generated_question:
  assumes "generate_questions completion loads rng notes_data num_questions difficulty_mix w
             = (QuestionsOk qs total_generated, w')"
  shows "(\<exists>batches.
            tier_batches completion loads notes_data
              (case difficulty_mix of None \<Rightarrow> default_difficulty_mix num_questions
               | Some given \<Rightarrow> given) w = (Inr batches, w')
          \<and> mset qs = mset (concat (map batch_items batches))
          \<and> total_generated = length (concat (map batch_items batches))
          \<and> ((\<forall>q \<in> set qs. generated_question_invariant q)
               \<longleftrightarrow> (\<forall>b \<in> set batches. \<forall>q \<in> set (batch_items b).
                     generated_question_invariant q)))
       \<and> (\<forall>ys. batch_items (JArr ys) = ys)
       \<and> (\<forall>tier n w0 p response w1 v.
             questions_prompt notes_data tier n = Inr p
           \<and> call_llm_with_retry completion p (7 / 10) 3000 3 w0 = (Inr response, w1)
           \<and> loads (strip_code_fence (content response)) = Inr v \<longrightarrow>
             generate_questions_by_difficulty completion loads notes_data tier n w0
               = (Inr (case v of JObj kvs \<Rightarrow> JArr [v] | _ \<Rightarrow> v), w1))"
proof -
  let ?mix = "case difficulty_mix of None \<Rightarrow> default_difficulty_mix num_questions
                | Some given \<Rightarrow> given"
  obtain res w1 where t: "tiers_loop completion loads notes_data ?mix [] w = (res, w1)"
    by (cases "tiers_loop completion loads notes_data ?mix [] w")
  from assms t obtain all_questions where a: "res = Inr all_questions"
    by (cases res) (simp_all add: generate_questions_def Let_def)
  from assms t a have qs: "qs = random_shuffle rng all_questions"
    and n: "total_generated = length all_questions" and w: "w' = w1"
    by (simp_all add: generate_questions_def Let_def)
  from tiers_loop_batches [OF t [unfolded a]] obtain batches where
    b: "tier_batches completion loads notes_data ?mix w = (Inr batches, w')"
    and c: "all_questions = concat (map batch_items batches)"
    using w by auto
  have m: "mset qs = mset (concat (map batch_items batches))"
    using qs c by (simp only: random_shuffle_mset)
  have l: "total_generated = length (concat (map batch_items batches))"
    using n c by simp
  have "set qs = set (concat (map batch_items batches))"
    using qs c by (simp only: random_shuffle_set)
  then have i: "(\<forall>q \<in> set qs. generated_question_invariant q)
               \<longleftrightarrow> (\<forall>b \<in> set batches. \<forall>q \<in> set (batch_items b).
                     generated_question_invariant q)"
    by auto
  have A: "\<exists>batches.
            tier_batches completion loads notes_data ?mix w = (Inr batches, w')
          \<and> mset qs = mset (concat (map batch_items batches))
          \<and> total_generated = length (concat (map batch_items batches))
          \<and> ((\<forall>q \<in> set qs. generated_question_invariant q)
               \<longleftrightarrow> (\<forall>b \<in> set batches. \<forall>q \<in> set (batch_items b).
                     generated_question_invariant q))"
    using b m l i by blast
  have B: "\<forall>ys. batch_items (JArr ys) = ys"
    by (simp add: batch_items_JArr)
  have C: "\<forall>tier n w0 p response w1 v.
             questions_prompt notes_data tier n = Inr p
           \<and> call_llm_with_retry completion p (7 / 10) 3000 3 w0 = (Inr response, w1)
           \<and> loads (strip_code_fence (content response)) = Inr v \<longrightarrow>
             generate_questions_by_difficulty completion loads notes_data tier n w0
               = (Inr (case v of JObj kvs \<Rightarrow> JArr [v] | _ \<Rightarrow> v), w1)"
    using tier_parsed by blast
  show ?thesis using A B C by (intro conjI)
qed

lemma shuffle_singleton: "random_shuffle rng [x] = [x]"
  by (simp add: random_shuffle_def)

text \<open>
  A generated question with three options and the answer index 5 stays in the pool.
\<close>

theorem malformed_question_kept_counterexample:
  \<open>generate_questions
      (\<lambda>i r. Inr \<lparr> content = ''[{"question": "Q", "options": ["a", "b", "c"], "correct_answer": 5}]'',
                    usage = \<lparr> prompt_tokens = 300, completion_tokens = 20, total_tokens = 320 \<rparr> \<rparr>)
      (\<lambda>s. if s = ''[{"question": "Q", "options": ["a", "b", "c"], "correct_answer": 5}]''
           then Inr (JArr [JObj [(''question'', JStr ''Q''),
                                 (''options'', JArr [JStr ''a'', JStr ''b'', JStr ''c'']),
                                 (''correct_answer'', JInt 5)]])
           else Inl ''Expecting value: line 1 column 1 (char 0)'')
      (\<lambda>d. 0)
      \<lparr> summary = ''S'', key_concepts = [''K''],
        topics = [\<lparr> name = ''T'', description = ''about T'' \<rparr>], detailed_notes = ''D'' \<rparr>
      1 None \<lparr> calls = 0, sleeps = [] \<rparr>
    = (QuestionsOk [JObj [(''question'', JStr ''Q''),
                          (''options'', JArr [JStr ''a'', JStr ''b'', JStr ''c'']),
                          (''correct_answer'', JInt 5)]] 1,
       \<lparr> calls = 1, sleeps = [] \<rparr>)
    \<and> \<not> generated_question_invariant
          (JObj [(''question'', JStr ''Q''),
                 (''options'', JArr [JStr ''a'', JStr ''b'', JStr ''c'']),
                 (''correct_answer'', JInt 5)])\<close>
  by (simp add: generate_questions_def default_difficulty_mix_def
      generate_questions_by_difficulty_def questions_prompt_def difficulty_instructions_def
      call_llm_with_retry_def MODEL_CHAIN_def upt_3 strip_code_fence_def Let_def
      shuffle_singleton generated_question_invariant_def)

lemma shuffle_pair: "random_shuffle (\<lambda>d. 0) [x, y] = [y, x]"
  by (simp add: random_shuffle_def)

theorem pool_is_every_generated_question_witness:
  \<open>generate_questions
      (\<lambda>i r. Inr \<lparr> content = ''[{"options": ["a", "b", "c", "d"], "correct_answer": 0}, {"options": ["a", "b"], "correct_answer": 1}]'',
                    usage = \<lparr> prompt_tokens = 300, completion_tokens = 40, total_tokens = 340 \<rparr> \<rparr>)
      (\<lambda>s. if s = ''[{"options": ["a", "b", "c", "d"], "correct_answer": 0}, {"options": ["a", "b"], "correct_answer": 1}]''
           then Inr (JArr [JObj [(''options'', JArr [JStr ''a'', JStr ''b'', JStr ''c'', JStr ''d'']),
                                 (''correct_answer'', JInt 0)],
                           JObj [(''options'', JArr [JStr ''a'', JStr ''b'']),
                                 (''correct_answer'', JInt 1)]])
           else Inl ''Expecting value: line 1 column 1 (char 0)'')
      (\<lambda>d. 0)
      \<lparr> summary = ''S'', key_concepts = [''K''],
        topics = [\<lparr> name = ''T'', description = ''about T'' \<rparr>], detailed_notes = ''D'' \<rparr>
      2 (Some [(''easy'', 2)]) \<lparr> calls = 0, sleeps = [] \<rparr>
    = (QuestionsOk [JObj [(''options'', JArr [JStr ''a'', JStr ''b'']),
                          (''correct_answer'', JInt 1)],
                    JObj [(''options'', JArr [JStr ''a'', JStr ''b'', JStr ''c'', JStr ''d'']),
                          (''correct_answer'', JInt 0)]] 2,
       \<lparr> calls = 1, sleeps = [] \<rparr>)
    \<and> mset [JObj [(''options'', JArr [JStr ''a'', JStr ''b'']),
                   (''correct_answer'', JInt 1)],
             JObj [(''options'', JArr [JStr ''a'', JStr ''b'', JStr ''c'', JStr ''d'']),
                   (''correct_answer'', JInt 0)]]
      = mset (concat (map batch_items
          [JArr [JObj [(''options'', JArr [JStr ''a'', JStr ''b'', JStr ''c'', JStr ''d'']),
                       (''correct_answer'', JInt 0)],
                 JObj [(''options'', JArr [JStr ''a'', JStr ''b'']),
                       (''correct_answer'', JInt 1)]]]))\<close>
proof -
  let ?q1 = "JObj [(''options'', JArr [JStr ''a'', JStr ''b'', JStr ''c'', JStr ''d'']),
                   (''correct_answer'', JInt 0)]"
  let ?q2 = "JObj [(''options'', JArr [JStr ''a'', JStr ''b'']), (''correct_answer'', JInt 1)]"
  let ?completion = \<open>\<lambda>(i::nat) (r::request). (Inr \<lparr> content = ''[{"options": ["a", "b", "c", "d"], "correct_answer": 0}, {"options": ["a", "b"], "correct_answer": 1}]'',
                    usage = \<lparr> prompt_tokens = 300, completion_tokens = 40, total_tokens = 340 \<rparr> \<rparr>
              :: exn + response)\<close>
  let ?loads = \<open>\<lambda>s. if s = ''[{"options": ["a", "b", "c", "d"], "correct_answer": 0}, {"options": ["a", "b"], "correct_answer": 1}]''
           then Inr (JArr [?q1, ?q2])
           else (Inl ''Expecting value: line 1 column 1 (char 0)'' :: string + json)\<close>
  let ?nd = "\<lparr> summary = ''S'', key_concepts = [''K''],
        topics = [\<lparr> name = ''T'', description = ''about T'' \<rparr>], detailed_notes = ''D'' \<rparr>"
  let ?w = "\<lparr> calls = 0, sleeps = [] \<rparr>"
  have e: "generate_questions ?completion ?loads (\<lambda>d. 0) ?nd 2 (Some [(''easy'', 2)]) ?w
    = (QuestionsOk [?q2, ?q1] 2, \<lparr> calls = 1, sleeps = [] \<rparr>)"
    by (simp add: generate_questions_def
      generate_questions_by_difficulty_def questions_prompt_def difficulty_instructions_def
      call_llm_with_retry_def MODEL_CHAIN_def upt_3 strip_code_fence_def Let_def
      shuffle_pair)
  have b: "tier_batches ?completion ?loads ?nd [(''easy'', 2)] ?w
    = (Inr [JArr [?q1, ?q2]], \<lparr> calls = 1, sleeps = [] \<rparr>)"
    by (simp add: generate_questions_by_difficulty_def questions_prompt_def
      difficulty_instructions_def call_llm_with_retry_def MODEL_CHAIN_def upt_3
      strip_code_fence_def Let_def)
  from pool_is_every_generated_question [OF e] b
  have "mset [?q2, ?q1] = mset (concat (map batch_items [JArr [?q1, ?q2]]))"
    by auto
  with e show ?thesis by (intro conjI)
qed

lemma tier_all_fail:
  assumes "\<forall>i r response. completion i r = Inr response
             \<longrightarrow> (\<exists>m. loads (strip_code_fence (content response)) = Inl m)"
    and "tier \<in> {''easy'', ''medium'', ''hard''}"
  shows "\<exists>w'. generate_questions_by_difficulty completion loads nd tier n w = (Inr (JArr []), w')"
proof -
  from assms(2) obtain p where p: "questions_prompt nd tier n = Inr p"
    using questions_prompt_ok by blast
  obtain res w1 where c: "call_llm_with_retry completion p (7 / 10) 3000 3 w = (res, w1)"
    by (cases "call_llm_with_retry completion p (7 / 10) 3000 3 w")
  show ?thesis
  proof (cases res)
    case (Inl e)
    with p c tier_call_fails show ?thesis by blast
  next
    case (Inr response)
    with c obtain i r where "completion i r = Inr response"
      using call_llm_provenance by blast
    with assms(1) obtain m where "loads (strip_code_fence (content response)) = Inl m"
      by blast
    with p c Inr tier_parse_fails show ?thesis by blast
  qed
qed

lemma tiers_all_fail:
  assumes "\<forall>i r response. completion i r = Inr response
             \<longrightarrow> (\<exists>m. loads (strip_code_fence (content response)) = Inl m)"
    and "fst ` set mix \<subseteq> {''easy'', ''medium'', ''hard''}"
  shows "\<exists>w'. tiers_loop completion loads nd mix [] w = (Inr [], w')"
  using assms(2)
proof (induction mix arbitrary: w)
  case Nil
  then show ?case by simp
next
  case (Cons tn rest)
  obtain tier n where tn: "tn = (tier, n)" by (cases tn)
  have r: "fst ` set rest \<subseteq> {''easy'', ''medium'', ''hard''}"
    using Cons.prems by auto
  show ?case
  proof (cases "n > 0")
    case False
    with Cons.IH [OF r] tn show ?thesis by simp
  next
    case True
    have "tier \<in> {''easy'', ''medium'', ''hard''}" using Cons.prems tn by auto
    with tier_all_fail [OF assms(1)] obtain w1 where
      "generate_questions_by_difficulty completion loads nd tier n w = (Inr (JArr []), w1)"
      by blast
    with Cons.IH [OF r, of w1] tn True show ?thesis by simp
  qed
qed

lemma default_mix_keys:
  "fst ` set (default_difficulty_mix n) \<subseteq> {''easy'', ''medium'', ''hard''}"
  by (simp add: default_difficulty_mix_def)

text \<open>
  C10. An exception raised by the generation client or by parsing a tier's response does
  not leave \<open>generate_questions_by_difficulty\<close>: the tier contributes the empty list.
  So when every call of the service raises or returns text that does not parse, that is
  when every tier fails, \<open>generate_questions\<close> returns success with an empty question
  list and \<open>total_generated = 0\<close>. (The tiers are keys of \<open>difficulty_instructions\<close>,
  as those of the default mix are.)
\<close>

theorem tier_failures_are_absorbed:
  assumes "\<forall>mix. difficulty_mix = Some mix \<longrightarrow> fst ` set mix \<subseteq> {''easy'', ''medium'', ''hard''}"
  shows "(\<forall>tier n w p. questions_prompt notes_data tier n = Inr p \<longrightarrow>
            (\<forall>e w'. call_llm_with_retry completion p (7 / 10) 3000 3 w = (Inl e, w') \<longrightarrow>
               generate_questions_by_difficulty completion loads notes_data tier n w
                 = (Inr (JArr []), w'))
          \<and> (\<forall>response w' m.
                 call_llm_with_retry completion p (7 / 10) 3000 3 w = (Inr response, w')
               \<and> loads (strip_code_fence (content response)) = Inl m \<longrightarrow>
               generate_questions_by_difficulty completion loads notes_data tier n w
                 = (Inr (JArr []), w')))
       \<and> ((\<forall>i r response. completion i r = Inr response
              \<longrightarrow> (\<exists>m. loads (strip_code_fence (content response)) = Inl m))
          \<longrightarrow> (\<exists>w'. generate_questions completion loads rng notes_data num_questions
                        difficulty_mix w = (QuestionsOk [] 0, w')))"
proof -
  have A: "\<forall>tier n w p. questions_prompt notes_data tier n = Inr p \<longrightarrow>
            (\<forall>e w'. call_llm_with_retry completion p (7 / 10) 3000 3 w = (Inl e, w') \<longrightarrow>
               generate_questions_by_difficulty completion loads notes_data tier n w
                 = (Inr (JArr []), w'))
          \<and> (\<forall>response w' m.
                 call_llm_with_retry completion p (7 / 10) 3000 3 w = (Inr response, w')
               \<and> loads (strip_code_fence (content response)) = Inl m \<longrightarrow>
               generate_questions_by_difficulty completion loads notes_data tier n w
                 = (Inr (JArr []), w'))"
    using tier_call_fails tier_parse_fails by blast
  have B: "(\<forall>i r response. completion i r = Inr response
              \<longrightarrow> (\<exists>m. loads (strip_code_fence (content response)) = Inl m))
          \<longrightarrow> (\<exists>w'. generate_questions completion loads rng notes_data num_questions
                        difficulty_mix w = (QuestionsOk [] 0, w'))"
  proof
    assume h: "\<forall>i r response. completion i r = Inr response
              \<longrightarrow> (\<exists>m. loads (strip_code_fence (content response)) = Inl m)"
    let ?mix = "case difficulty_mix of None \<Rightarrow> default_difficulty_mix num_questions
                | Some given \<Rightarrow> given"
    have "fst ` set ?mix \<subseteq> {''easy'', ''medium'', ''hard''}"
      using assms default_mix_keys by (cases difficulty_mix) simp_all
    from tiers_all_fail [OF h this] obtain w' where
      "tiers_loop completion loads notes_data ?mix [] w = (Inr [], w')" by blast
    then have "generate_questions completion loads rng notes_data num_questions
                 difficulty_mix w = (QuestionsOk [] 0, w')"
      by (simp add: generate_questions_def Let_def random_shuffle_def)
    then show "\<exists>w'. generate_questions completion loads rng notes_data num_questions
                        difficulty_mix w = (QuestionsOk [] 0, w')" by blast
  qed
  show ?thesis using A B by (intro conjI)
qed

theorem tier_failures_are_absorbed_witness:
  "generate_questions (\<lambda>i r. Inl (Exception ''connection reset''))
     (\<lambda>s. Inl ''Expecting value: line 1 column 1 (char 0)'') (\<lambda>d. 0)
     \<lparr> summary = ''S'', key_concepts = [''K''],
       topics = [\<lparr> name = ''T'', description = ''about T'' \<rparr>], detailed_notes = ''D'' \<rparr>
     3 (Some [(''hard'', 2), (''easy'', 1)]) \<lparr> calls = 0, sleeps = [] \<rparr>
   = (QuestionsOk [] 0, \<lparr> calls = 6, sleeps = [2, 2, 2, 2] \<rparr>)"
proof -
  let ?completion = "\<lambda>(i::nat) (r::request). (Inl (Exception ''connection reset'') :: exn + response)"
  let ?loads = "\<lambda>s::string. (Inl ''Expecting value: line 1 column 1 (char 0)'' :: string + json)"
  let ?nd = "\<lparr> summary = ''S'', key_concepts = [''K''],
       topics = [\<lparr> name = ''T'', description = ''about T'' \<rparr>], detailed_notes = ''D'' \<rparr>"
  have k: "\<forall>mix. Some [(''hard'', 2::int), (''easy'', 1)] = Some mix
             \<longrightarrow> fst ` set mix \<subseteq> {''easy'', ''medium'', ''hard''}"
    by auto
  have f: "\<forall>i r response. ?completion i r = Inr response
              \<longrightarrow> (\<exists>m. ?loads (strip_code_fence (content response)) = Inl m)"
    by simp
  from tier_failures_are_absorbed [OF k, of ?nd ?completion ?loads "\<lambda>d. 0" 3
      "\<lparr> calls = 0, sleeps = [] \<rparr>"] f
  obtain w' where w: "generate_questions ?completion ?loads (\<lambda>d. 0) ?nd 3
      (Some [(''hard'', 2), (''easy'', 1)]) \<lparr> calls = 0, sleeps = [] \<rparr> = (QuestionsOk [] 0, w')"
    by blast
  have o: "\<not> is_transient ''connection reset''" "\<not> is_not_found ''connection reset''"
    using other_reset by (simp_all add: other_error_def)
  have "snd (generate_questions ?completion ?loads (\<lambda>d. 0) ?nd 3
      (Some [(''hard'', 2), (''easy'', 1)]) \<lparr> calls = 0, sleeps = [] \<rparr>)
        = \<lparr> calls = 6, sleeps = [2, 2, 2, 2] \<rparr>"
    by (simp add: generate_questions_def generate_questions_by_difficulty_def
        questions_prompt_def difficulty_instructions_def call_llm_with_retry_def
        MODEL_CHAIN_def upt_3 o sleep_def Let_def)
  with w show ?thesis by simp
qed

section \<open>The session cache\<close>



section \<open>The default split\<close>

text \<open>
  C4. For every requested total of at least 3, the default split gives the easy and the
  medium tier \<open>total div 3\<close> questions each, the hard tier \<open>total - 2 * (total div 3)\<close>,
  and the three counts add up to the requested total.
\<close>

theorem default_split_sums_to_total:
  assumes "3 \<le> requested_total"
  shows "default_difficulty_mix requested_total =
           [(''easy'', requested_total div 3), (''medium'', requested_total div 3),
            (''hard'', requested_total - 2 * (requested_total div 3))]
         \<and> sum_list (map snd (default_difficulty_mix requested_total)) = requested_total"
  by (simp add: default_difficulty_mix_def)

theorem default_split_sums_to_total_witness:
  "(3::int) \<le> 50
   \<and> default_difficulty_mix 50 = [(''easy'', 16), (''medium'', 16), (''hard'', 18)]
   \<and> sum_list (map snd (default_difficulty_mix 50)) = 50"
  using default_split_sums_to_total [of 50] by simp

end
